theory Spec2Isabelle
  imports Main "HOL-Library.Char_ord" "HOL-Library.List_Lexorder"
begin

section \<open>JavaScript values and strings\<close>

text \<open>
  The client is a Node.js script, the second document of \<^verbatim>\<open>src/help.js\<close> (the first
  only prints a help text). Strings are modelled as \<^typ>\<open>string\<close>, one \<^typ>\<open>char\<close> per
  code unit.
  Values whose truthiness the script tests (\<^verbatim>\<open>data.err\<close>, \<^verbatim>\<open>data.error\<close>, the URL fields of
  an entry) are modelled by \<open>jsval\<close>; \<open>truthy\<close> is JavaScript's ToBoolean on them.
\<close>

datatype jsval =
    JUndefined
  | JNull
  | JBool bool
  | JNum int
  | JStr string
  | JObject

fun truthy :: "jsval \<Rightarrow> bool" where
  "truthy JUndefined = False"
| "truthy JNull = False"
| "truthy (JBool b) = b"
| "truthy (JNum n) = (n \<noteq> 0)"
| "truthy (JStr s) = (s \<noteq> [])"
| "truthy JObject = True"

text \<open>
  An exception value. \<open>TypeError\<close> is what the script itself raises when it reads a
  property of \<^verbatim>\<open>undefined\<close>; \<open>ExternalError\<close> is an error raised by a collaborator
  (the network, the file system, a prompt), with its message.
\<close>

datatype js_error = TypeError string | ExternalError string

fun message :: "js_error \<Rightarrow> string" where
  "message (TypeError m) = m"
| "message (ExternalError m) = m"

text \<open>\<^verbatim>\<open>String.prototype.startsWith\<close>.\<close>

definition startsWith :: "string \<Rightarrow> string \<Rightarrow> bool" where
  "startsWith s p = (take (length p) s = p)"

section \<open>Tilde expansion\<close>

text \<open>
  \<^verbatim>\<open>
  function expandTildePath(pathWithTilde) {
    if (typeof pathWithTilde !== 'string') return pathWithTilde;
    if (pathWithTilde.startsWith('~/') || pathWithTilde === '~') {
      return pathWithTilde.replace(/^~(?=$|\/|\\)/, os.homedir());
    }
    return pathWithTilde;
  }
  \<close>
  The model is the function on strings; \<^verbatim>\<open>os.homedir()\<close> is the parameter \<open>home\<close>.

  \<^verbatim>\<open>replace\<close> with a string replacement does not insert the replacement verbatim: it
  runs ECMAScript's GetSubstitution over it, where \<^verbatim>\<open>$$\<close> stands for a dollar sign,
  \<^verbatim>\<open>$&\<close> for the matched text, \<^verbatim>\<open>$`\<close> for the text before the match and
  \<^verbatim>\<open>$'\<close> for the text after it. The pattern has no capture group, so \<^verbatim>\<open>$1\<close>,
  \<^verbatim>\<open>$<name>\<close> and a dollar sign before any other character stay as they are.
\<close>

fun getSubstitution :: "string \<Rightarrow> string \<Rightarrow> string \<Rightarrow> string \<Rightarrow> string" where
  "getSubstitution matched preceding following [] = []"
| "getSubstitution matched preceding following [c] = [c]"
| "getSubstitution matched preceding following (c # d # rest) =
     (if c = CHR ''$'' \<and> d = CHR ''$'' then CHR ''$'' # getSubstitution matched preceding following rest
      else if c = CHR ''$'' \<and> d = CHR ''&'' then matched @ getSubstitution matched preceding following rest
      else if c = CHR ''$'' \<and> d = CHR 0x60 then preceding @ getSubstitution matched preceding following rest
      else if c = CHR ''$'' \<and> d = CHR 0x27 then following @ getSubstitution matched preceding following rest
      else c # getSubstitution matched preceding following (d # rest))"

text \<open>
  The regular expression \<^verbatim>\<open>/^~(?=$|\/|\\)/\<close>: a tilde at position 0 that is followed by
  the end of the string, a slash or a backslash (the lookahead consumes nothing).
\<close>

fun tildeMatches :: "string \<Rightarrow> bool" where
  "tildeMatches [] = False"
| "tildeMatches [c] = (c = CHR ''~'')"
| "tildeMatches (c # d # rest) = (c = CHR ''~'' \<and> (d = CHR ''/'' \<or> d = CHR 0x5C))"

text \<open>\<^verbatim>\<open>s.replace(/^~(?=$|\/|\\)/, home)\<close>: the first (only) match is replaced.\<close>

definition replaceTilde :: "string \<Rightarrow> string \<Rightarrow> string" where
  "replaceTilde home s =
     (if tildeMatches s then getSubstitution ''~'' [] (tl s) home @ tl s else s)"

definition expandTildePath :: "string \<Rightarrow> string \<Rightarrow> string" where
  "expandTildePath home pathWithTilde =
     (if startsWith pathWithTilde ''~/'' \<or> pathWithTilde = ''~''
      then replaceTilde home pathWithTilde
      else pathWithTilde)"

section \<open>Configuration file\<close>

text \<open>
  The object \<^verbatim>\<open>parse(configContent)\<close> of the \<^verbatim>\<open>ini\<close> package, by the keys the script
  reads. \<open>None\<close> is a key the file does not set.
\<close>

record config =
  cfg_server :: "string option"
  cfg_channel :: "string option"
  cfg_quality :: "string option"
  cfg_limit :: "string option"
  cfg_exclude :: "string option"
  cfg_output :: "string option"

definition emptyConfig :: config where
  "emptyConfig = \<lparr>cfg_server = None, cfg_channel = None, cfg_quality = None,
     cfg_limit = None, cfg_exclude = None, cfg_output = None\<rparr>"

definition DEFAULT_SERVER :: string where
  "DEFAULT_SERVER = ''https://mediathekviewweb.de''"

section \<open>Command line options\<close>

text \<open>
  \<^verbatim>\<open>program.opts()\<close>, by the options the script declares. \<open>opt_output\<close> is
  \<^verbatim>\<open>options.output\<close> and \<open>opt_channel\<close> is \<^verbatim>\<open>options.channel\<close>: \<open>JUndefined\<close> when
  the flag is absent, \<open>JBool True\<close> when \<^verbatim>\<open>-c\<close> is given without a value, a string
  otherwise, and \<open>JNull\<close> once the connect handler has reset it. An option with a value
  that is absent is \<open>None\<close>.
\<close>

record options =
  server :: string
  channels :: bool
  query :: "string option"
  download :: "string option"
  opt_output :: "string option"
  interactive :: bool
  limit :: "string option"
  opt_channel :: jsval
  exclude :: "string option"
  quality :: string
  debug :: bool

text \<open>Truthiness of an optional string: \<^verbatim>\<open>undefined\<close> and the empty string are falsy.\<close>

fun given :: "string option \<Rightarrow> bool" where
  "given None = False"
| "given (Some s) = (s \<noteq> [])"

text \<open>\<^verbatim>\<open>a || b\<close> on an optional string and a string.\<close>

fun orElse :: "string option \<Rightarrow> string \<Rightarrow> string" where
  "orElse None d = d"
| "orElse (Some s) d = (if s \<noteq> [] then s else d)"

text \<open>
  What the command line itself gives, before the defaults: commander takes an option's
  value from the command line when the flag is there, and its declared default
  (the third argument of \<^verbatim>\<open>.option(...)\<close>) otherwise.
\<close>

record cli =
  cli_server :: "string option"
  cli_channels :: bool
  cli_query :: "string option"
  cli_download :: "string option"
  cli_output :: "string option"
  cli_interactive :: bool
  cli_limit :: "string option"
  cli_channel :: "jsval option"
  cli_exclude :: "string option"
  cli_quality :: "string option"
  cli_debug :: bool

fun fromCli :: "'a option \<Rightarrow> 'a \<Rightarrow> 'a" where
  "fromCli None d = d"
| "fromCli (Some v) d = v"

fun fromCliOpt :: "'a option \<Rightarrow> 'a option \<Rightarrow> 'a option" where
  "fromCliOpt None d = d"
| "fromCliOpt (Some v) d = Some v"

fun optionalString :: "string option \<Rightarrow> jsval" where
  "optionalString None = JUndefined"
| "optionalString (Some s) = JStr s"

definition programOptions :: "config \<Rightarrow> cli \<Rightarrow> options" where
  "programOptions configDefaults args =
     \<lparr>server = fromCli (cli_server args) (orElse (cfg_server configDefaults) DEFAULT_SERVER),
      channels = cli_channels args,
      query = cli_query args,
      download = cli_download args,
      opt_output = fromCliOpt (cli_output args) (cfg_output configDefaults),
      interactive = cli_interactive args,
      limit = fromCliOpt (cli_limit args) (cfg_limit configDefaults),
      opt_channel = fromCli (cli_channel args) (optionalString (cfg_channel configDefaults)),
      exclude = fromCliOpt (cli_exclude args) (cfg_exclude configDefaults),
      quality = fromCli (cli_quality args) (orElse (cfg_quality configDefaults) ''hd''),
      debug = cli_debug args\<rparr>"

text \<open>A command line with no option at all.\<close>

definition noArgs :: cli where
  "noArgs = \<lparr>cli_server = None, cli_channels = False, cli_query = None, cli_download = None,
     cli_output = None, cli_interactive = False, cli_limit = None, cli_channel = None,
     cli_exclude = None, cli_quality = None, cli_debug = False\<rparr>"

section \<open>Entries and backend replies\<close>

text \<open>
  One media item as the backend sends it. A URL field the item lacks is \<open>JUndefined\<close>;
  the backend sends the empty string for a tier it does not have.
\<close>

record entry =
  entry_id :: string
  title :: string
  channel :: string
  duration :: int
  timestamp :: int
  url_video_hd :: jsval
  url_video :: jsval
  url_video_low :: jsval

text \<open>
  A reply of the backend, over the socket (\<^verbatim>\<open>queryEntries\<close>) or of \<^verbatim>\<open>POST /api/entries\<close>:
  \<^verbatim>\<open>{result: {results: [...], queryInfo}}\<close> or \<^verbatim>\<open>{err: ...}\<close>. Either part may be missing.
\<close>

record result_obj =
  results :: "entry list option"

record response =
  err :: jsval
  result :: "result_obj option"

text \<open>The body of \<^verbatim>\<open>GET /api/channels\<close>: \<^verbatim>\<open>data.channels\<close> and \<^verbatim>\<open>data.error\<close>.\<close>

record channels_data =
  data_channels :: "string list option"
  data_error :: jsval

section \<open>The search query\<close>

datatype jsnumber = NaN | Num int

record clause =
  clause_fields :: "string list"
  clause_query :: jsval

record searchQuery =
  queries :: "clause list"
  sortBy :: string
  sortOrder :: string
  future :: bool
  offset :: nat
  query_size :: "jsnumber option"

text \<open>
  White space as \<^verbatim>\<open>trim\<close> and \<^verbatim>\<open>parseInt\<close> skip it, among the characters of
  \<^typ>\<open>char\<close>: tab, line feed, vertical tab, form feed, carriage return, space and the
  no-break space.
\<close>

definition isWhiteSpace :: "char \<Rightarrow> bool" where
  "isWhiteSpace c = (c \<in> {CHR 0x09, CHR 0x0A, CHR 0x0B, CHR 0x0C, CHR 0x0D, CHR 0x20, CHR 0xA0})"

definition trim :: "string \<Rightarrow> string" where
  "trim s = rev (dropWhile isWhiteSpace (rev (dropWhile isWhiteSpace s)))"

text \<open>\<^verbatim>\<open>s.split(',')\<close>: the pieces between the commas; the empty string gives one empty piece.\<close>

fun splitComma :: "string \<Rightarrow> string list" where
  "splitComma [] = [[]]"
| "splitComma (c # cs) =
     (if c = CHR '','' then [] # splitComma cs
      else (case splitComma cs of
              [] \<Rightarrow> [[c]]
            | piece # pieces \<Rightarrow> (c # piece) # pieces))"

text \<open>\<^verbatim>\<open>parseInt(s, 10)\<close>: leading white space, a sign, then the longest run of digits.\<close>

definition isDigit :: "char \<Rightarrow> bool" where
  "isDigit c = (CHR ''0'' \<le> c \<and> c \<le> CHR ''9'')"

definition digitsValue :: "string \<Rightarrow> int" where
  "digitsValue ds = foldl (\<lambda>acc c. 10 * acc + (of_char c - 48)) 0 ds"

definition parseInt10 :: "string \<Rightarrow> jsnumber" where
  "parseInt10 s =
     (let t = dropWhile isWhiteSpace s;
          negative = (t \<noteq> [] \<and> hd t = CHR ''-'');
          u = (if t \<noteq> [] \<and> (hd t = CHR ''-'' \<or> hd t = CHR ''+'') then tl t else t);
          ds = takeWhile isDigit u
      in if ds = [] then NaN
         else if negative then Num (- digitsValue ds) else Num (digitsValue ds))"

text \<open>
  The query \<^verbatim>\<open>searchMovies\<close> prepares:
  \<^verbatim>\<open>
    const searchQuery = {
      queries: [{ fields: ['title', 'topic'], query: query }],
      sortBy: 'timestamp', sortOrder: 'desc', future: false, offset: 0
    };
    if (limit) { searchQuery.size = parseInt(limit, 10); }
    if (channel) {
      searchQuery.queries.push({ fields: ['channel'], query: channel });
    }
  \<close>
\<close>

definition prepareQuery :: "string \<Rightarrow> jsval \<Rightarrow> string option \<Rightarrow> searchQuery" where
  "prepareQuery q chan lim =
     \<lparr>queries =
        \<lparr>clause_fields = [''title'', ''topic''], clause_query = JStr q\<rparr> #
        (if truthy chan then [\<lparr>clause_fields = [''channel''], clause_query = chan\<rparr>] else []),
      sortBy = ''timestamp'',
      sortOrder = ''desc'',
      future = False,
      offset = 0,
      query_size = (case lim of
                      None \<Rightarrow> None
                    | Some l \<Rightarrow> if l \<noteq> [] then Some (parseInt10 l) else None)\<rparr>"

text \<open>
  \<^verbatim>\<open>
    let excludedChannelsList = [];
    if (excludeChannels) {
      excludedChannelsList = excludeChannels.split(',').map(ch => ch.trim());
    }
  \<close>
\<close>

definition excludedChannelsList :: "string option \<Rightarrow> string list" where
  "excludedChannelsList excludeChannels =
     (case excludeChannels of
        None \<Rightarrow> []
      | Some s \<Rightarrow> if s \<noteq> [] then map trim (splitComma s) else [])"

section \<open>What the script prints and does\<close>

text \<open>
  A run is the list of the effects the script performs, in order. \<open>ProcessExit n\<close> is
  \<^verbatim>\<open>process.exit(n)\<close>: nothing follows it. The output of \<^verbatim>\<open>debug(...)\<close>, printed only
  under \<^verbatim>\<open>--debug\<close>, is left out of the traces, except for the record of the exclusion
  filter (\<open>DebugFiltered\<close>, with \<^verbatim>\<open>originalCount\<close>, \<^verbatim>\<open>filteredCount\<close>,
  \<^verbatim>\<open>excludedCount\<close>).
\<close>

datatype event =
    ConsoleLog string
  | ConsoleError string
  | ConsoleLogValue string jsval
  | ConsoleErrorValue string jsval
  | ConsoleErrorObject string js_error
  | LogExcluded nat "string list"
  | DebugFiltered nat nat nat
  | LogFound nat
  | LogVideoDetails string string int
  | SpinnerStart string
  | SpinnerStop
  | SpinnerSucceed string
  | SpinnerFail string
  | Prompt string
  | HttpGet string
  | HttpPost string string
  | HttpGetAsset jsval
  | EmitQueryEntries searchQuery
  | EmitGetDescription string
  | SpawnWhichMpv
  | SpawnMpv jsval
  | LogPlayerExited int
  | WriteFile string
  | WriteStream string
  | ProcessExit nat

text \<open>The exit code of a run: the argument of its first \<^verbatim>\<open>process.exit\<close>, if it has one.\<close>

fun exitCode :: "event list \<Rightarrow> nat option" where
  "exitCode [] = None"
| "exitCode (ProcessExit n # es) = Some n"
| "exitCode (e # es) = exitCode es"

section \<open>Loading the configuration\<close>

text \<open>
  The file system as \<^verbatim>\<open>loadConfig\<close> sees it: \<^verbatim>\<open>fs.existsSync(CONFIG_FILE)\<close>, the outcome of
  \<^verbatim>\<open>fs.readFileSync\<close> and the outcome of \<^verbatim>\<open>fs.writeFileSync\<close> (\<open>Some e\<close> when it throws).
\<close>

record fsys =
  configExists :: bool
  readConfig :: "js_error + string"
  writeConfig :: "js_error option"

definition CONFIG_FILE :: "string \<Rightarrow> string" where
  "CONFIG_FILE home = home @ ''/.mediathekviewrc''"

text \<open>
  \<^verbatim>\<open>
  function createDefaultConfig() {
    try {
      if (!fs.existsSync(CONFIG_FILE)) {
        fs.writeFileSync(CONFIG_FILE, DEFAULT_CONFIG, 'utf8');
        console.log(chalk.green(`Created default configuration file: ${CONFIG_FILE}`));
        return true;
      }
    } catch (err) {
      console.error(chalk.yellow(`Warning: Could not create config file ${CONFIG_FILE}`));
      console.error(err.message);
    }
    return false;
  }
  \<close>
\<close>

definition createDefaultConfig :: "string \<Rightarrow> fsys \<Rightarrow> bool \<times> event list" where
  "createDefaultConfig home fs =
     (if \<not> configExists fs then
        (case writeConfig fs of
           None \<Rightarrow>
             (True, [WriteFile (CONFIG_FILE home),
                     ConsoleLog (''Created default configuration file: '' @ CONFIG_FILE home)])
         | Some e \<Rightarrow>
             (False, [ConsoleError (''Warning: Could not create config file '' @ CONFIG_FILE home),
                      ConsoleError (message e)]))
      else (False, []))"

text \<open>
  \<^verbatim>\<open>
  function loadConfig() {
    try {
      if (fs.existsSync(CONFIG_FILE)) {
        const configContent = fs.readFileSync(CONFIG_FILE, 'utf8');
        const config = parse(configContent);
        if (config.output) {
          config.output = expandTildePath(config.output);
        }
        return config;
      } else {
        createDefaultConfig();
        return {};
      }
    } catch (err) {
      console.error(chalk.yellow(`Warning: Could not parse config file ${CONFIG_FILE}`));
      console.error(err.message);
    }
    return {};
  }
  \<close>
  \<^verbatim>\<open>parse\<close> belongs to the \<^verbatim>\<open>ini\<close> package and is a parameter here: it returns the
  configuration object or throws.
\<close>

definition parseWarning :: "string \<Rightarrow> js_error \<Rightarrow> event list" where
  "parseWarning home e =
     [ConsoleError (''Warning: Could not parse config file '' @ CONFIG_FILE home),
      ConsoleError (message e)]"

definition loadConfig ::
  "(string \<Rightarrow> js_error + config) \<Rightarrow> string \<Rightarrow> fsys \<Rightarrow> config \<times> event list" where
  "loadConfig parse home fs =
     (if configExists fs then
        (case readConfig fs of
           Inl e \<Rightarrow> (emptyConfig, parseWarning home e)
         | Inr configContent \<Rightarrow>
             (case parse configContent of
                Inl e \<Rightarrow> (emptyConfig, parseWarning home e)
              | Inr cfg \<Rightarrow>
                  (case cfg_output cfg of
                     None \<Rightarrow> (cfg, [])
                   | Some out \<Rightarrow>
                       if out \<noteq> [] then (cfg\<lparr>cfg_output := Some (expandTildePath home out)\<rparr>, [])
                       else (cfg, []))))
      else (emptyConfig, snd (createDefaultConfig home fs)))"

section \<open>The world outside the script\<close>

text \<open>
  What the collaborators answer: the backend, the operator at the prompts, the player and
  the operating system. An answer \<open>Inl e\<close> is a promise that rejects (or a call that
  throws) with \<open>e\<close>. \<open>fetchChannels w k\<close> is the body of the \<open>k\<close>-th
  \<^verbatim>\<open>GET /api/channels\<close> of the run, after \<^verbatim>\<open>response.json()\<close>.
\<close>

datatype transfer =
    FetchThrows js_error
  | NotOk string
  | StreamError js_error
  | Finished

record world =
  fetchChannels :: "nat \<Rightarrow> js_error + channels_data"
  fetchEntries :: "string \<Rightarrow> js_error + response"
  queryEntries :: "searchQuery \<Rightarrow> response"
  getDescription :: "string \<Rightarrow> string"
  answerChannel :: "string option list \<Rightarrow> js_error + string option"
  answerSearchQuery :: "js_error + string"
  answerVideo :: "entry list \<Rightarrow> js_error + entry"
  answerFilename :: "string \<Rightarrow> js_error + string"
  answerAction :: "js_error + string"
  mpvAvailable :: bool
  playerRun :: "jsval \<Rightarrow> js_error + int"
  assetFetch :: "jsval \<Rightarrow> transfer"
  cwd :: string
  homedir :: string

section \<open>Handlers at the process boundary\<close>

text \<open>
  \<^verbatim>\<open>
  socket.on('error', (error) => {
    console.error(chalk.red('Connection error:'), error);
    process.exit(1);
  });
  process.on('SIGINT', () => {
    console.log(chalk.yellow('\nExiting...'));
    socket.disconnect();
    process.exit(0);
  });
  process.on('uncaughtException', (error) => {
    console.error(chalk.red('Unhandled exception:'), error);
    process.exit(1);
  });
  process.on('unhandledRejection', (reason, promise) => {
    console.error(chalk.red('Unhandled promise rejection:'), reason);
    process.exit(1);
  });
  \<close>
\<close>

definition socketError :: "js_error \<Rightarrow> event list" where
  "socketError e = [ConsoleErrorObject ''Connection error:'' e, ProcessExit 1]"

definition sigint :: "event list" where
  "sigint = [ConsoleLog (CHR 0x0A # ''Exiting...''), ProcessExit 0]"

definition uncaughtException :: "js_error \<Rightarrow> event list" where
  "uncaughtException e = [ConsoleErrorObject ''Unhandled exception:'' e, ProcessExit 1]"

definition unhandledRejection :: "jsval \<Rightarrow> event list" where
  "unhandledRejection reason =
     [ConsoleErrorValue ''Unhandled promise rejection:'' reason, ProcessExit 1]"

section \<open>Searching\<close>

text \<open>
  How the promise of \<^verbatim>\<open>searchMovies\<close> settles. A \<^verbatim>\<open>TypeError\<close> inside the socket
  callback is raised outside every \<^verbatim>\<open>try\<close> and outside the promise's executor: it
  reaches the \<^verbatim>\<open>uncaughtException\<close> handler, and the process is gone (\<open>Crashed\<close>).
\<close>

datatype 'a settled = Resolved 'a | Rejected jsval | Crashed

text \<open>
  The callback of \<^verbatim>\<open>socket.emit('queryEntries', searchQuery, (response) => ...)\<close>:
  \<^verbatim>\<open>
        spinner.stop();
        if (response.err) {
          console.error(chalk.red('Error searching:'), response.err);
          reject(response.err);
          return;
        }
        let results = response.result.results;
        if (excludedChannelsList.length > 0) {
          const originalCount = results.length;
          results = results.filter(item => !excludedChannelsList.includes(item.channel));
          const excludedCount = originalCount - results.length;
          if (excludedCount > 0) {
            console.log(chalk.yellow(`Excluded ${excludedCount} results from channels: ...`));
          }
          debug('Filtered excluded channels', { originalCount, filteredCount, excludedCount });
        }
        debug('Search results received', { count: results.length, ... });
        resolve(results);
  \<close>
  The arguments of the last \<^verbatim>\<open>debug\<close> are evaluated whether or not debug mode is on, so
  a reply without \<^verbatim>\<open>results\<close> raises there even when nothing is excluded.
\<close>

definition searchCallback ::
  "bool \<Rightarrow> string list \<Rightarrow> response \<Rightarrow> event list \<times> entry list settled" where
  "searchCallback debugMode excluded response =
     (if truthy (err response) then
        ([SpinnerStop, ConsoleErrorValue ''Error searching:'' (err response)],
         Rejected (err response))
      else
        (case result response of
           None \<Rightarrow>
             (SpinnerStop # uncaughtException (TypeError ''response.result is undefined''), Crashed)
         | Some r \<Rightarrow>
             (case results r of
                None \<Rightarrow>
                  (SpinnerStop # uncaughtException (TypeError ''results is undefined''), Crashed)
              | Some rs \<Rightarrow>
                  if length excluded > 0 then
                    (let originalCount = length rs;
                         kept = filter (\<lambda>item. channel item \<notin> set excluded) rs;
                         excludedCount = originalCount - length kept
                     in (SpinnerStop #
                         (if excludedCount > 0 then [LogExcluded excludedCount excluded] else []) @
                         (if debugMode
                          then [DebugFiltered originalCount (length kept) excludedCount]
                          else []),
                         Resolved kept))
                  else ([SpinnerStop], Resolved rs))))"

text \<open>
  \<^verbatim>\<open>async function searchMovies(query, channel = null, limit = null, excludeChannels = null)\<close>.
  Its \<^verbatim>\<open>catch\<close> guards only the preparation of the query, where nothing throws for these
  argument types.
\<close>

definition searchMovies ::
  "world \<Rightarrow> options \<Rightarrow> string \<Rightarrow> jsval \<Rightarrow> string option \<Rightarrow> string option
     \<Rightarrow> event list \<times> entry list settled" where
  "searchMovies w opts q chan lim excludeChannels =
     (let searchQuery = prepareQuery q chan lim;
          reply = searchCallback (debug opts) (excludedChannelsList excludeChannels)
                    (queryEntries w searchQuery)
      in (SpinnerStart ''Searching...'' # EmitQueryEntries searchQuery # fst reply, snd reply))"

section \<open>Quality selection\<close>

text \<open>
  The same block stands in \<^verbatim>\<open>getAndDownloadVideo\<close> and in \<^verbatim>\<open>startInteractiveMode\<close>:
  \<^verbatim>\<open>
    const qualityMap = { 'hd': 'url_video_hd', 'medium': 'url_video', 'low': 'url_video_low' };
    let quality;
    if (options.quality && qualityMap[options.quality.toLowerCase()]) {
      const preferredQuality = qualityMap[options.quality.toLowerCase()];
      if (video[preferredQuality]) {
        quality = preferredQuality;
        console.log(chalk.cyan(`Selected quality: ${options.quality}`));
      }
    }
    if (!quality) {
      if (video.url_video_hd) { quality = 'url_video_hd'; console.log(... 'High (HD)'); }
      else if (video.url_video) { quality = 'url_video'; console.log(... 'Medium'); }
      else if (video.url_video_low) { quality = 'url_video_low'; console.log(... 'Low'); }
    }
  \<close>
  \<^verbatim>\<open>qualityMap\<close> is an object literal, so a lookup also finds what it inherits from
  \<^verbatim>\<open>Object.prototype\<close>; of those names only \<^verbatim>\<open>constructor\<close> and \<^verbatim>\<open>__proto__\<close> are
  in lower case. Such a hit is an object, and no entry has a field under its name.
\<close>

datatype url_field = Url_video_hd | Url_video | Url_video_low

datatype map_hit = OwnField url_field | Inherited

definition toLowerCase :: "string \<Rightarrow> string" where
  "toLowerCase s =
     map (\<lambda>c. if CHR ''A'' \<le> c \<and> c \<le> CHR ''Z'' then char_of (of_char c + (32::nat)) else c) s"

definition qualityMap :: "string \<Rightarrow> map_hit option" where
  "qualityMap k =
     (if k = ''hd'' then Some (OwnField Url_video_hd)
      else if k = ''medium'' then Some (OwnField Url_video)
      else if k = ''low'' then Some (OwnField Url_video_low)
      else if k = ''constructor'' \<or> k = ''__proto__'' then Some Inherited
      else None)"

fun videoField :: "entry \<Rightarrow> url_field \<Rightarrow> jsval" where
  "videoField video Url_video_hd = url_video_hd video"
| "videoField video Url_video = url_video video"
| "videoField video Url_video_low = url_video_low video"

text \<open>The first \<^verbatim>\<open>if\<close>: the tier the option names, when the entry has it.\<close>

definition preferredQuality :: "options \<Rightarrow> entry \<Rightarrow> url_field option" where
  "preferredQuality opts video =
     (if quality opts \<noteq> [] then
        (case qualityMap (toLowerCase (quality opts)) of
           None \<Rightarrow> None
         | Some Inherited \<Rightarrow> None
         | Some (OwnField f) \<Rightarrow> if truthy (videoField video f) then Some f else None)
      else None)"

text \<open>The whole block: the value of \<^verbatim>\<open>quality\<close> (\<open>None\<close> is \<^verbatim>\<open>undefined\<close>) and what it prints.\<close>

definition selectQuality :: "options \<Rightarrow> entry \<Rightarrow> url_field option \<times> event list" where
  "selectQuality opts video =
     (case preferredQuality opts video of
        Some f \<Rightarrow> (Some f, [ConsoleLog (''Selected quality: '' @ quality opts)])
      | None \<Rightarrow>
          if truthy (url_video_hd video)
          then (Some Url_video_hd, [ConsoleLog ''Selected quality: High (HD)''])
          else if truthy (url_video video)
          then (Some Url_video, [ConsoleLog ''Selected quality: Medium''])
          else if truthy (url_video_low video)
          then (Some Url_video_low, [ConsoleLog ''Selected quality: Low''])
          else (None, []))"

text \<open>\<^verbatim>\<open>video[quality]\<close>; with \<^verbatim>\<open>quality\<close> undefined it is \<^verbatim>\<open>video['undefined']\<close>.\<close>

fun selectedUrl :: "entry \<Rightarrow> url_field option \<Rightarrow> jsval" where
  "selectedUrl video None = JUndefined"
| "selectedUrl video (Some f) = videoField video f"

section \<open>Downloading\<close>

text \<open>
  \<^verbatim>\<open>title.replace(/[\\/:*?"<>|]/g, '_')\<close>, \<^verbatim>\<open>path.isAbsolute\<close> and \<^verbatim>\<open>path.join\<close> on a
  POSIX system. \<open>pathJoin\<close> puts the separator between its arguments; the normalisation
  \<^verbatim>\<open>path.join\<close> does on top of that is not part of the model.
\<close>

definition sanitizeTitle :: "string \<Rightarrow> string" where
  "sanitizeTitle t =
     map (\<lambda>c. if c \<in> {CHR 0x5C, CHR ''/'', CHR '':'', CHR ''*'', CHR ''?'', CHR 0x22,
                       CHR ''<'', CHR ''>'', CHR ''|''}
               then CHR ''_'' else c) t"

definition isAbsolute :: "string \<Rightarrow> bool" where
  "isAbsolute p = startsWith p ''/''"

definition pathJoin :: "string \<Rightarrow> string \<Rightarrow> string" where
  "pathJoin dir p = dir @ ''/'' @ p"

definition resolvePath :: "world \<Rightarrow> string \<Rightarrow> string" where
  "resolvePath w p =
     (let expandedPath = expandTildePath (homedir w) p
      in if isAbsolute expandedPath then expandedPath else pathJoin (cwd w) expandedPath)"

text \<open>
  The first half of \<^verbatim>\<open>downloadVideo\<close>, before its \<^verbatim>\<open>try\<close>: the file name, from
  \<^verbatim>\<open>options.output\<close> or from the operator. A prompt that rejects throws out of
  \<^verbatim>\<open>downloadVideo\<close>.
\<close>

definition askFilename :: "world \<Rightarrow> entry \<Rightarrow> event list \<times> (js_error + string)" where
  "askFilename w video =
     (let defaultFilename = sanitizeTitle (title video) @ ''-'' @ channel video @ ''.mp4''
      in case answerFilename w defaultFilename of
           Inl e \<Rightarrow> ([Prompt ''customFilename''], Inl e)
         | Inr customFilename \<Rightarrow>
             ([Prompt ''customFilename''],
              Inr (if customFilename \<noteq> defaultFilename then resolvePath w customFilename
                   else pathJoin (cwd w) defaultFilename)))"

definition chooseFilename ::
  "world \<Rightarrow> options \<Rightarrow> entry \<Rightarrow> event list \<times> (js_error + string)" where
  "chooseFilename w opts video =
     (case opt_output opts of
        None \<Rightarrow> askFilename w video
      | Some outputArg \<Rightarrow>
          if outputArg \<noteq> [] then ([], Inr (resolvePath w outputArg))
          else askFilename w video)"

text \<open>The \<^verbatim>\<open>catch\<close> of \<^verbatim>\<open>downloadVideo\<close>.\<close>

definition downloadFailed :: "js_error \<Rightarrow> event list" where
  "downloadFailed e = [SpinnerFail ''Download failed'', ConsoleErrorObject [] e]"

text \<open>
  \<^verbatim>\<open>fetch(url)\<close> and the copy of its body into the file. The progress the \<^verbatim>\<open>data\<close>
  handler reports goes to the spinner text and to \<^verbatim>\<open>debug\<close>; it is not in the trace.
\<close>

definition transferAsset :: "world \<Rightarrow> jsval \<Rightarrow> string \<Rightarrow> event list" where
  "transferAsset w url filename =
     HttpGetAsset url #
     (case assetFetch w url of
        FetchThrows e \<Rightarrow> downloadFailed e
      | NotOk statusText \<Rightarrow> [SpinnerFail (''Failed to download: '' @ statusText)]
      | StreamError e \<Rightarrow> WriteStream filename # downloadFailed e
      | Finished \<Rightarrow> [WriteStream filename, SpinnerSucceed ''Download complete!''])"

text \<open>
  \<^verbatim>\<open>async function downloadVideo(url, filename, video)\<close>. The \<^verbatim>\<open>filename\<close> it is given
  is overwritten on every path. The result is the trace and the exception it throws to
  its caller, if any.
\<close>

definition downloadVideo ::
  "world \<Rightarrow> options \<Rightarrow> jsval \<Rightarrow> string \<Rightarrow> entry \<Rightarrow> event list \<times> js_error option" where
  "downloadVideo w opts url filename0 video =
     (case chooseFilename w opts video of
        (ev, Inl e) \<Rightarrow> (ev, Some e)
      | (ev, Inr filename) \<Rightarrow>
          (ev @
           [ConsoleLog (''Downloading to: '' @ filename),
            SpinnerStart ''Starting download...'',
            SpawnWhichMpv] @
           (if mpvAvailable w then
              SpinnerStop # Prompt ''action'' #
              (case answerAction w of
                 Inl e \<Rightarrow> downloadFailed e
               | Inr action \<Rightarrow>
                   if action = ''Play'' then
                     ConsoleLog ''Playing video...'' # SpawnMpv url #
                     (case playerRun w url of
                        Inl e \<Rightarrow> downloadFailed e
                      | Inr code \<Rightarrow> [LogPlayerExited code])
                   else if action = ''Cancel'' then [ConsoleLog ''Download cancelled'']
                   else SpinnerStart ''Downloading...'' # transferAsset w url filename)
            else transferAsset w url filename),
           None))"

section \<open>The actions\<close>

text \<open>
  \<^verbatim>\<open>
  async function listChannels() {
    const spinner = ora('Loading channels...').start();
    try {
      const response = await fetch(`${options.server}/api/channels`);
      const data = await response.json();
      spinner.succeed(chalk.green('Channels loaded'));
      if (data.error) {
        console.error(chalk.red('Error loading channels:'), data.error);
      } else {
        console.log(chalk.cyan('Available channels:'));
        data.channels.sort().forEach(channel => { console.log(`- ${channel}`); });
      }
    } catch (error) {
      spinner.fail(chalk.red('Failed to load channels'));
      console.error(error);
    }
    process.exit(0);
  }
  \<close>
\<close>

definition listChannels :: "world \<Rightarrow> nat \<Rightarrow> options \<Rightarrow> event list" where
  "listChannels w k opts =
     SpinnerStart ''Loading channels...'' # HttpGet (server opts @ ''/api/channels'') #
     (case fetchChannels w k of
        Inl e \<Rightarrow> [SpinnerFail ''Failed to load channels'', ConsoleErrorObject [] e]
      | Inr data \<Rightarrow>
          SpinnerSucceed ''Channels loaded'' #
          (if truthy (data_error data) then
             [ConsoleErrorValue ''Error loading channels:'' (data_error data)]
           else
             ConsoleLog ''Available channels:'' #
             (case data_channels data of
                None \<Rightarrow>
                  [SpinnerFail ''Failed to load channels'',
                   ConsoleErrorObject [] (TypeError ''data.channels is undefined'')]
              | Some cs \<Rightarrow> map (\<lambda>c. ConsoleLog (''- '' @ c)) (sort cs)))) @
     [ProcessExit 0]"

text \<open>
  \<^verbatim>\<open>async function getAndDownloadVideo(id)\<close>: the lookup
  \<^verbatim>\<open>
      if (data.err) {
        spinner.fail(chalk.red('Error fetching video details'));
        console.error(data.err);
        process.exit(1);
      }
      if (!data.result.results || data.result.results.length === 0) {
        spinner.fail(chalk.red(`No video found with ID: ${id}`));
        process.exit(1);
      }
      const video = data.result.results[0];
      spinner.succeed(chalk.green('Video details fetched'));
  \<close>
  then the details of the video, the quality block, and
  \<^verbatim>\<open>
      await downloadVideo(video[quality], filename, video);
    } catch (error) {
      spinner.fail(chalk.red('Failed to process video'));
      console.error(error);
    }
    process.exit(0);
  \<close>
\<close>

definition processFailed :: "js_error \<Rightarrow> event list" where
  "processFailed e = [SpinnerFail ''Failed to process video'', ConsoleErrorObject [] e]"

definition notFound :: "string \<Rightarrow> event list" where
  "notFound ident = [SpinnerFail (''No video found with ID: '' @ ident), ProcessExit 1]"

definition downloadSelected :: "world \<Rightarrow> options \<Rightarrow> entry \<Rightarrow> event list \<times> js_error option" where
  "downloadSelected w opts video =
     (let sel = selectQuality opts video;
          dl = downloadVideo w opts (selectedUrl video (fst sel)) [] video
      in (snd sel @ fst dl, snd dl))"

definition getAndDownloadVideo :: "world \<Rightarrow> options \<Rightarrow> string \<Rightarrow> event list" where
  "getAndDownloadVideo w opts ident =
     SpinnerStart (''Fetching video details for ID: '' @ ident) #
     HttpPost (server opts @ ''/api/entries'') ident #
     (case fetchEntries w ident of
        Inl e \<Rightarrow> processFailed e @ [ProcessExit 0]
      | Inr data \<Rightarrow>
          if truthy (err data) then
            [SpinnerFail ''Error fetching video details'', ConsoleErrorValue [] (err data),
             ProcessExit 1]
          else
            (case result data of
               None \<Rightarrow> processFailed (TypeError ''data.result is undefined'') @ [ProcessExit 0]
             | Some r \<Rightarrow>
                 (case results r of
                    None \<Rightarrow> notFound ident
                  | Some [] \<Rightarrow> notFound ident
                  | Some (video # others) \<Rightarrow>
                      SpinnerSucceed ''Video details fetched'' #
                      LogVideoDetails (title video) (channel video) (duration video) #
                      (case downloadSelected w opts video of
                         (ev, None) \<Rightarrow> ev
                       | (ev, Some e) \<Rightarrow> ev @ processFailed e) @
                      [ProcessExit 0])))"

text \<open>
  \<^verbatim>\<open>getVideoDetails\<close> and its use in interactive mode: a description that starts with
  \<^verbatim>\<open>error:\<close> or is \<^verbatim>\<open>document not found\<close> rejects, and the caller prints that no
  description is available.
\<close>

definition describeVideo :: "world \<Rightarrow> entry \<Rightarrow> event list" where
  "describeVideo w video =
     EmitGetDescription (entry_id video) #
     (let description = getDescription w (entry_id video)
      in if startsWith description ''error:'' \<or> description = ''document not found''
         then [ConsoleLog ''Description not available'']
         else [ConsoleLog ''Description:'', ConsoleLog description])"

text \<open>\<^verbatim>\<open>v || null\<close> on an optional string.\<close>

definition orNull :: "string option \<Rightarrow> string option" where
  "orNull v = (if given v then v else None)"

text \<open>
  \<^verbatim>\<open>async function startInteractiveMode()\<close>. Everything up to the download stands in one
  \<^verbatim>\<open>try\<close>, whose \<^verbatim>\<open>catch\<close> prints \<^verbatim>\<open>Interactive mode failed:\<close>; the function ends
  with \<^verbatim>\<open>process.exit(0)\<close>. The channel list it fetches first is not used afterwards.
\<close>

definition interactiveFailed :: "js_error \<Rightarrow> event list" where
  "interactiveFailed e = [ConsoleErrorObject ''Interactive mode failed:'' e, ProcessExit 0]"

definition startInteractiveMode :: "world \<Rightarrow> nat \<Rightarrow> options \<Rightarrow> event list" where
  "startInteractiveMode w k opts =
     HttpGet (server opts @ ''/api/channels'') #
     (case fetchChannels w k of
        Inl e \<Rightarrow> interactiveFailed e
      | Inr data \<Rightarrow>
          Prompt ''searchQuery'' #
          (case answerSearchQuery w of
             Inl e \<Rightarrow> interactiveFailed e
           | Inr searchQuery \<Rightarrow>
               (case orNull (exclude opts) of
                  None \<Rightarrow> []
                | Some excludeChannels \<Rightarrow> [ConsoleLog (''Excluding channels: '' @ excludeChannels)]) @
               (case searchMovies w opts searchQuery
                       (if truthy (opt_channel opts) then opt_channel opts else JNull)
                       (orNull (limit opts)) (orNull (exclude opts)) of
                  (ev, Rejected reason) \<Rightarrow>
                    ev @ [ConsoleErrorValue ''Interactive mode failed:'' reason, ProcessExit 0]
                | (ev, Crashed) \<Rightarrow> ev
                | (ev, Resolved rs) \<Rightarrow>
                    ev @
                    (if length rs = 0 then [ConsoleLog ''No results found.'', ProcessExit 0]
                     else
                       LogFound (length rs) # Prompt ''selectedVideo'' #
                       (case answerVideo w rs of
                          Inl e \<Rightarrow> interactiveFailed e
                        | Inr selectedVideo \<Rightarrow>
                            LogVideoDetails (title selectedVideo) (channel selectedVideo)
                              (duration selectedVideo) #
                            describeVideo w selectedVideo @
                            (case downloadSelected w opts selectedVideo of
                               (ev', None) \<Rightarrow> ev' @ [ProcessExit 0]
                             | (ev', Some e) \<Rightarrow> ev' @ interactiveFailed e))))))"

section \<open>The connect handler\<close>

text \<open>
  The first half of \<^verbatim>\<open>socket.on('connect', ...)\<close>: a \<^verbatim>\<open>--channel\<close> flag without a value.
  \<^verbatim>\<open>
    if (options.channel === true) {
      try {
        const response = await fetch(`${options.server}/api/channels`);
        const data = await response.json();
        const channels = data.channels || [];
        if (channels.length > 0) {
          const channelChoices = [{ name: 'ALL - No channel filter', value: null }]
            .concat(channels.map(channel => ({ name: channel, value: channel })));
          const { selectedChannel } = await inquirer.prompt([...]);
          options.channel = selectedChannel;
        } else {
          console.log(chalk.yellow('No channels available. Searching in all channels.'));
          options.channel = null;
        }
      } catch (error) {
        console.error(chalk.red('Failed to fetch channels:'), error.message);
        options.channel = null;
      }
    }
  \<close>
\<close>

definition fetchChannelsFailed :: "options \<Rightarrow> js_error \<Rightarrow> options \<times> event list" where
  "fetchChannelsFailed opts e =
     (opts\<lparr>opt_channel := JNull\<rparr>,
      [ConsoleErrorValue ''Failed to fetch channels:'' (JStr (message e))])"

definition resolveChannel :: "world \<Rightarrow> options \<Rightarrow> options \<times> event list" where
  "resolveChannel w opts =
     (if opt_channel opts = JBool True then
        (case fetchChannels w 0 of
           Inl e \<Rightarrow>
             (fst (fetchChannelsFailed opts e),
              HttpGet (server opts @ ''/api/channels'') # snd (fetchChannelsFailed opts e))
         | Inr data \<Rightarrow>
             (let chans = (case data_channels data of None \<Rightarrow> [] | Some cs \<Rightarrow> cs)
              in if length chans > 0 then
                   (case answerChannel w (None # map Some chans) of
                      Inl e \<Rightarrow>
                        (fst (fetchChannelsFailed opts e),
                         HttpGet (server opts @ ''/api/channels'') # Prompt ''selectedChannel'' #
                         snd (fetchChannelsFailed opts e))
                    | Inr selectedChannel \<Rightarrow>
                        (opts\<lparr>opt_channel := (case selectedChannel of
                                                  None \<Rightarrow> JNull
                                                | Some c \<Rightarrow> JStr c)\<rparr>,
                         [HttpGet (server opts @ ''/api/channels''), Prompt ''selectedChannel'']))
                 else
                   (opts\<lparr>opt_channel := JNull\<rparr>,
                    [HttpGet (server opts @ ''/api/channels''),
                     ConsoleLog ''No channels available. Searching in all channels.''])))
      else (opts, []))"

text \<open>
  The second half: the command.
  \<^verbatim>\<open>
    if (options.channels) {
      listChannels();
    } else if (options.query) {
      if (options.channel) { console.log(chalk.cyan(`Searching in channel: ${options.channel}`)); }
      else { console.log(chalk.cyan('Searching in ALL channels')); }
      if (options.exclude) { console.log(chalk.cyan(`Excluding channels: ${options.exclude}`)); }
      searchMovies(options.query, options.channel, options.limit, options.exclude);
    } else if (options.download) {
      getAndDownloadVideo(options.download);
    } else if (options.interactive) {
      startInteractiveMode();
    } else {
      startInteractiveMode();
    }
  \<close>
\<close>

datatype action = ListChannels | Search string | DownloadById string | Interactive

definition selectAction :: "options \<Rightarrow> action" where
  "selectAction opts =
     (if channels opts then ListChannels
      else
        (case orNull (query opts) of
           Some q \<Rightarrow> Search q
         | None \<Rightarrow>
             (case orNull (download opts) of
                Some ident \<Rightarrow> DownloadById ident
              | None \<Rightarrow> if interactive opts then Interactive else Interactive)))"

text \<open>
  The search command does not await the promise of \<^verbatim>\<open>searchMovies\<close>: when it rejects,
  the rejection is unhandled.
\<close>

definition searchCommand :: "world \<Rightarrow> options \<Rightarrow> string \<Rightarrow> event list" where
  "searchCommand w opts q =
     (if truthy (opt_channel opts) then ConsoleLogValue ''Searching in channel: '' (opt_channel opts)
      else ConsoleLog ''Searching in ALL channels'') #
     (case orNull (exclude opts) of
        None \<Rightarrow> []
      | Some excludeChannels \<Rightarrow> [ConsoleLog (''Excluding channels: '' @ excludeChannels)]) @
     (case searchMovies w opts q (opt_channel opts) (limit opts) (exclude opts) of
        (ev, Rejected reason) \<Rightarrow> ev @ unhandledRejection reason
      | (ev, Crashed) \<Rightarrow> ev
      | (ev, Resolved rs) \<Rightarrow> ev)"

fun perform :: "world \<Rightarrow> nat \<Rightarrow> options \<Rightarrow> action \<Rightarrow> event list" where
  "perform w k opts ListChannels = listChannels w k opts"
| "perform w k opts (Search q) = searchCommand w opts q"
| "perform w k opts (DownloadById ident) = getAndDownloadVideo w opts ident"
| "perform w k opts Interactive = startInteractiveMode w k opts"

text \<open>
  The handler: the action it runs and its trace. The channel list has been fetched once
  already when the channel flag came without a value.
\<close>

definition connectHandler :: "world \<Rightarrow> options \<Rightarrow> action \<times> event list" where
  "connectHandler w opts0 =
     (let resolved = resolveChannel w opts0;
          opts = fst resolved;
          k = (if opt_channel opts0 = JBool True then 1 else 0)
      in (selectAction opts,
          ConsoleLogValue ''Connected to server:'' (JStr (server opts0)) #
          snd resolved @ perform w k opts (selectAction opts)))"

section \<open>The program\<close>

text \<open>
  The script from its start: it loads the configuration, reads the command line, opens the
  socket, and then waits for the socket's events. \<open>Connects\<close> is the \<^verbatim>\<open>connect\<close> event,
  \<open>Fails e\<close> the socket's \<^verbatim>\<open>error\<close> event, and \<open>Silent\<close> a socket that emits neither: the
  server is unreachable, and no code of the script runs any more.
\<close>

datatype connection = Connects | Fails js_error | Silent

definition program ::
  "(string \<Rightarrow> js_error + config) \<Rightarrow> fsys \<Rightarrow> cli \<Rightarrow> world \<Rightarrow> connection \<Rightarrow> event list" where
  "program parse fs args w conn =
     (let loaded = loadConfig parse (homedir w) fs;
          opts = programOptions (fst loaded) args
      in snd loaded @
         (case conn of
            Connects \<Rightarrow> snd (connectHandler w opts)
          | Fails e \<Rightarrow> socketError e
          | Silent \<Rightarrow> []))"

section \<open>Notions of the specification\<close>

text \<open>
  The specification's words for the properties below, each beside the code it is compared
  with. \<open>plainHome\<close>: the home directory does not begin with a tilde or a dollar sign, as
  an absolute path does not. \<open>firstAvailable\<close>: the first tier with a non-empty URL in the
  order high, medium, low. \<open>withoutChannels E R\<close>: the sequence \<open>R\<close> without the entries
  whose channel is in \<open>E\<close>.
\<close>

definition plainHome :: "string \<Rightarrow> bool" where
  "plainHome home = (home = [] \<or> (hd home \<noteq> CHR ''~'' \<and> hd home \<noteq> CHR ''$''))"

definition fallbackOrder :: "url_field list" where
  "fallbackOrder = [Url_video_hd, Url_video, Url_video_low]"

definition firstAvailable :: "entry \<Rightarrow> url_field option" where
  "firstAvailable video = find (\<lambda>f. truthy (videoField video f)) fallbackOrder"

fun tierLabel :: "url_field \<Rightarrow> string" where
  "tierLabel Url_video_hd = ''High (HD)''"
| "tierLabel Url_video = ''Medium''"
| "tierLabel Url_video_low = ''Low''"

definition withoutChannels :: "string list \<Rightarrow> entry list \<Rightarrow> entry list" where
  "withoutChannels E R = filter (\<lambda>e. channel e \<notin> set E) R"

text \<open>
  The parts of the connect handler's trace: what it prints and does before the command
  (\<open>handlerPrefix\<close>), the options after the channel prompt (\<open>resolvedOptions\<close>), and the
  number of times the channel list has been fetched by then (\<open>fetchesBefore\<close>).
\<close>

definition handlerPrefix :: "world \<Rightarrow> options \<Rightarrow> event list" where
  "handlerPrefix w opts =
     ConsoleLogValue ''Connected to server:'' (JStr (server opts)) # snd (resolveChannel w opts)"

definition resolvedOptions :: "world \<Rightarrow> options \<Rightarrow> options" where
  "resolvedOptions w opts = fst (resolveChannel w opts)"

definition fetchesBefore :: "options \<Rightarrow> nat" where
  "fetchesBefore opts = (if opt_channel opts = JBool True then 1 else 0)"

text \<open>
  The effects that tell the actions apart. Only \<^verbatim>\<open>listChannels\<close> starts the spinner
  \<^verbatim>\<open>Loading channels...\<close>; only \<^verbatim>\<open>searchMovies\<close> emits \<^verbatim>\<open>queryEntries\<close>; only
  \<^verbatim>\<open>getAndDownloadVideo\<close> posts to \<^verbatim>\<open>/api/entries\<close>; only \<^verbatim>\<open>startInteractiveMode\<close>
  prompts for the search query. \<open>footprints\<close> collects those of a trace.
\<close>

datatype footprint = Listing | Searching | LookingUp | AskingQuery

fun footprintOf :: "event \<Rightarrow> footprint option" where
  "footprintOf (SpinnerStart s) = (if s = ''Loading channels...'' then Some Listing else None)"
| "footprintOf (EmitQueryEntries searchQuery) = Some Searching"
| "footprintOf (HttpPost url body) = Some LookingUp"
| "footprintOf (Prompt name) = (if name = ''searchQuery'' then Some AskingQuery else None)"
| "footprintOf e = None"

fun footprints :: "event list \<Rightarrow> footprint set" where
  "footprints [] = {}"
| "footprints (e # es) =
     (case footprintOf e of
        None \<Rightarrow> footprints es
      | Some f \<Rightarrow> insert f (footprints es))"

section \<open>Sample inputs\<close>

definition tatort :: entry where
  "tatort = \<lparr>entry_id = ''a1'', title = ''Tatort: Borowski'', channel = ''ARD'', duration = 5400,
     timestamp = 1700000000, url_video_hd = JStr ''https://cdn.example/hd.mp4'',
     url_video = JStr ''https://cdn.example/sd.mp4'', url_video_low = JStr []\<rparr>"

definition heute :: entry where
  "heute = \<lparr>entry_id = ''z9'', title = ''heute journal'', channel = ''ZDF'', duration = 1800,
     timestamp = 1700000100, url_video_hd = JStr [],
     url_video = JStr ''https://cdn.example/heute.mp4'', url_video_low = JStr []\<rparr>"

definition noUrls :: entry where
  "noUrls = \<lparr>entry_id = ''n0'', title = ''Sendung ohne Video'', channel = ''ARD'', duration = 60,
     timestamp = 1700000200, url_video_hd = JStr [], url_video = JStr [],
     url_video_low = JStr []\<rparr>"

definition defaultOptions :: options where
  "defaultOptions = programOptions emptyConfig noArgs"

text \<open>
  A backend that answers every search with the same two entries and every lookup with an
  entry that has no URL; an operator who takes the defaults; no player installed.
\<close>

definition sampleWorld :: world where
  "sampleWorld =
     \<lparr>fetchChannels = (\<lambda>k. Inr \<lparr>data_channels = Some [''ZDF'', ''ARD''], data_error = JUndefined\<rparr>),
      fetchEntries = (\<lambda>ident. Inr \<lparr>err = JUndefined, result = Some \<lparr>results = Some [noUrls]\<rparr>\<rparr>),
      queryEntries = (\<lambda>q. \<lparr>err = JUndefined, result = Some \<lparr>results = Some [tatort, heute]\<rparr>\<rparr>),
      getDescription = (\<lambda>ident. ''document not found''),
      answerChannel = (\<lambda>choices. Inr None),
      answerSearchQuery = Inr ''Tatort'',
      answerVideo = (\<lambda>rs. case rs of
                              [] \<Rightarrow> Inl (ExternalError ''nothing to choose'')
                            | v # vs \<Rightarrow> Inr v),
      answerFilename = (\<lambda>d. Inr d),
      answerAction = Inr ''Download'',
      mpvAvailable = False,
      playerRun = (\<lambda>u. Inr 0),
      assetFetch = (\<lambda>u. case u of
                             JStr s \<Rightarrow> Finished
                           | other \<Rightarrow> FetchThrows (TypeError ''Only absolute URLs are supported'')),
      cwd = ''/tmp'',
      homedir = ''/home/user''\<rparr>"

text \<open>A backend whose reply to a search holds entries of the channel ARD only.\<close>

definition ardWorld :: world where
  "ardWorld =
     sampleWorld\<lparr>queryEntries :=
       (\<lambda>q. \<lparr>err = JUndefined, result = Some \<lparr>results = Some [tatort]\<rparr>\<rparr>)\<rparr>"

text \<open>The same world with the backend's HTTP endpoints unreachable.\<close>

definition offlineWorld :: world where
  "offlineWorld =
     sampleWorld\<lparr>fetchChannels := (\<lambda>k. Inl (ExternalError ''connect ECONNREFUSED'')),
                 fetchEntries := (\<lambda>ident. Inl (ExternalError ''connect ECONNREFUSED''))\<rparr>"


text \<open>A lookup that finds nothing: no error field, an empty result set.\<close>

definition emptyWorld :: world where
  "emptyWorld =
     sampleWorld\<lparr>fetchEntries :=
       (\<lambda>ident. Inr \<lparr>err = JUndefined, result = Some \<lparr>results = Some []\<rparr>\<rparr>)\<rparr>"

text \<open>A lookup whose reply is the empty object: no error field and no result.\<close>

definition bareReplyWorld :: world where
  "bareReplyWorld =
     sampleWorld\<lparr>fetchEntries := (\<lambda>ident. Inr \<lparr>err = JUndefined, result = None\<rparr>)\<rparr>"

text \<open>An empty configuration file, and a parser that reads it as the empty object.\<close>

definition plainFs :: fsys where
  "plainFs = \<lparr>configExists = True, readConfig = Inr [], writeConfig = None\<rparr>"

definition parseEmpty :: "string \<Rightarrow> js_error + config" where
  "parseEmpty content = Inr emptyConfig"

text \<open>A configuration file that is there and cannot be read.\<close>

definition brokenFs :: fsys where
  "brokenFs = \<lparr>configExists = True, readConfig = Inl (ExternalError ''EACCES: permission denied''),
     writeConfig = None\<rparr>"

text \<open>A configuration file that can be read and whose content the parser rejects.\<close>

definition garbledFs :: fsys where
  "garbledFs = \<lparr>configExists = True, readConfig = Inr ''[server'', writeConfig = None\<rparr>"

definition noParse :: "string \<Rightarrow> js_error + config" where
  "noParse content = Inl (ExternalError ''unparsable'')"

section \<open>Tilde expansion is idempotent\<close>

lemma getSubstitution_keeps_head:
  "c \<noteq> CHR ''$'' \<Longrightarrow> \<exists>t. getSubstitution m p f (c # h) = c # t"
  by (cases h) auto

lemma no_tilde_unchanged:
  "s = [] \<or> hd s \<noteq> CHR ''~'' \<Longrightarrow> expandTildePath home s = s"
  by (cases s) (auto simp: expandTildePath_def startsWith_def)

lemma expanded_has_no_tilde:
  assumes "plainHome home" and "startsWith p ''~/'' \<or> p = ''~''"
  shows "expandTildePath home p = [] \<or> hd (expandTildePath home p) \<noteq> CHR ''~''"
proof -
  from assms(2) obtain r where p: "p = CHR ''~'' # r" and r: "r = [] \<or> (\<exists>r'. r = CHR ''/'' # r')"
    by (cases p; cases "tl p") (auto simp: startsWith_def)
  have tm: "tildeMatches p" using p r by auto
  have e: "expandTildePath home p = getSubstitution ''~'' [] r home @ r"
    using assms(2) tm p by (simp add: expandTildePath_def replaceTilde_def)
  show ?thesis
  proof (cases home)
    case Nil
    then show ?thesis using e r by auto
  next
    case (Cons c h)
    with assms(1) have c: "c \<noteq> CHR ''~''" "c \<noteq> CHR ''$''" by (auto simp: plainHome_def)
    from getSubstitution_keeps_head[OF c(2)]
    obtain t where "getSubstitution ''~'' [] r (c # h) = c # t" by blast
    then show ?thesis using e Cons c by simp
  qed
qed

text \<open>
  Claim C7, as the code has it. Expanding twice is expanding once, for every path, when
  the home directory does not itself begin with a tilde or a dollar sign (no absolute
  home directory does); and a path that begins with a slash is returned as it is,
  whatever the home directory.
\<close>

theorem expandTildePath_idempotent:
  assumes "plainHome home"
  shows "expandTildePath home (expandTildePath home p) = expandTildePath home p \<and>
         expandTildePath home (CHR ''/'' # rest) = CHR ''/'' # rest"
proof
  show "expandTildePath home (expandTildePath home p) = expandTildePath home p"
  proof (cases "startsWith p ''~/'' \<or> p = ''~''")
    case True
    from expanded_has_no_tilde[OF assms True] show ?thesis by (rule no_tilde_unchanged)
  next
    case False
    then show ?thesis by (simp add: expandTildePath_def)
  qed
  show "expandTildePath home (CHR ''/'' # rest) = CHR ''/'' # rest"
    by (rule no_tilde_unchanged) simp
qed

theorem expandTildePath_idempotent_witness:
  "plainHome ''/home/user'' \<and>
   expandTildePath ''/home/user'' ''~/Videos/a.mp4'' = ''/home/user/Videos/a.mp4'' \<and>
   expandTildePath ''/home/user'' (expandTildePath ''/home/user'' ''~/Videos/a.mp4'') =
     ''/home/user/Videos/a.mp4''"
proof -
  have h: "plainHome ''/home/user''" by (simp add: plainHome_def)
  have e: "expandTildePath ''/home/user'' ''~/Videos/a.mp4'' = ''/home/user/Videos/a.mp4''"
    by (simp add: expandTildePath_def startsWith_def replaceTilde_def)
  from expandTildePath_idempotent[OF h, of "''~/Videos/a.mp4''"] e h show ?thesis by simp
qed

text \<open>
  The claim says that expansion is idempotent for every path. The replacement is whatever
  \<^verbatim>\<open>os.homedir()\<close> returns: with the home directory \<^verbatim>\<open>~/sub\<close> the path \<^verbatim>\<open>~/a\<close> expands
  to \<^verbatim>\<open>~/sub/a\<close>, and that expands again, to \<^verbatim>\<open>~/sub/sub/a\<close>.
\<close>

theorem expandTildePath_counterexample:
  "expandTildePath ''~/sub'' ''~/a'' = ''~/sub/a'' \<and>
   expandTildePath ''~/sub'' (expandTildePath ''~/sub'' ''~/a'') = ''~/sub/sub/a'' \<and>
   expandTildePath ''~/sub'' (expandTildePath ''~/sub'' ''~/a'') \<noteq> expandTildePath ''~/sub'' ''~/a''"
proof -
  have 1: "expandTildePath ''~/sub'' ''~/a'' = ''~/sub/a''"
    by (simp add: expandTildePath_def startsWith_def replaceTilde_def)
  have 2: "expandTildePath ''~/sub'' ''~/sub/a'' = ''~/sub/sub/a''"
    by (simp add: expandTildePath_def startsWith_def replaceTilde_def)
  show ?thesis by (simp add: 1 2)
qed

section \<open>Quality selection\<close>

lemma qualityMap_own: "qualityMap k = Some (OwnField f) \<Longrightarrow> k \<noteq> []"
  by (auto simp: qualityMap_def)

lemma toLowerCase_Nil: "toLowerCase s = [] \<longleftrightarrow> s = []"
  by (simp add: toLowerCase_def)

lemma selectQuality_fallback:
  "preferredQuality opts video = None \<Longrightarrow>
   selectQuality opts video =
     (case firstAvailable video of
        None \<Rightarrow> (None, [])
      | Some f \<Rightarrow> (Some f, [ConsoleLog (''Selected quality: '' @ tierLabel f)]))"
  by (simp add: selectQuality_def firstAvailable_def fallbackOrder_def)

lemma preferred_hit:
  "qualityMap (toLowerCase (quality opts)) = Some (OwnField f) \<Longrightarrow>
   truthy (videoField video f) \<Longrightarrow> preferredQuality opts video = Some f"
  using qualityMap_own[of "toLowerCase (quality opts)" f]
  by (auto simp: preferredQuality_def toLowerCase_Nil)

lemma preferred_miss:
  "qualityMap (toLowerCase (quality opts)) = Some (OwnField f) \<Longrightarrow>
   \<not> truthy (videoField video f) \<Longrightarrow> preferredQuality opts video = None"
  by (auto simp: preferredQuality_def)

lemma preferred_invalid:
  "toLowerCase (quality opts) \<notin> {''hd'', ''medium'', ''low''} \<Longrightarrow>
   preferredQuality opts video = None"
  by (auto simp: preferredQuality_def qualityMap_def)

lemma firstAvailable_None:
  "firstAvailable video = None \<longleftrightarrow>
     \<not> truthy (url_video_hd video) \<and> \<not> truthy (url_video video) \<and>
     \<not> truthy (url_video_low video)"
  by (auto simp: firstAvailable_def fallbackOrder_def)

lemmas sample_defs =
  sampleWorld_def defaultOptions_def programOptions_def emptyConfig_def noArgs_def
  DEFAULT_SERVER_def tatort_def heute_def noUrls_def

lemma default_server: "server defaultOptions = ''https://mediathekviewweb.de''"
  by (simp add: sample_defs)

lemma default_quality_is_hd:
  "qualityMap (toLowerCase (quality defaultOptions)) = Some (OwnField Url_video_hd)"
  by (simp add: sample_defs qualityMap_def toLowerCase_def)

text \<open>
  Claim C1, as the code has it. When the option names a tier: the selector returns that
  tier if the entry's URL for it is non-empty; otherwise the first non-empty tier in the
  order high, medium, low; and when all three URLs are empty it selects nothing. In
  that last case the caller does not stop: it calls \<^verbatim>\<open>downloadVideo\<close> with an undefined URL.
\<close>

theorem quality_selection:
  assumes "qualityMap (toLowerCase (quality opts)) = Some (OwnField f)"
  shows "(truthy (videoField video f) \<longrightarrow> fst (selectQuality opts video) = Some f) \<and>
         (\<not> truthy (videoField video f) \<longrightarrow>
            fst (selectQuality opts video) = firstAvailable video) \<and>
         (\<not> truthy (url_video_hd video) \<and> \<not> truthy (url_video video) \<and>
          \<not> truthy (url_video_low video) \<longrightarrow>
            fst (selectQuality opts video) = None \<and>
            downloadSelected w opts video = downloadVideo w opts JUndefined [] video)"
proof (intro conjI impI)
  assume "truthy (videoField video f)"
  with assms show "fst (selectQuality opts video) = Some f"
    by (simp add: selectQuality_def preferred_hit)
next
  assume "\<not> truthy (videoField video f)"
  with assms have "preferredQuality opts video = None" by (rule preferred_miss)
  then show "fst (selectQuality opts video) = firstAvailable video"
    by (simp add: selectQuality_fallback split: option.splits)
next
  assume a: "\<not> truthy (url_video_hd video) \<and> \<not> truthy (url_video video) \<and>
             \<not> truthy (url_video_low video)"
  then have "\<not> truthy (videoField video f)" by (cases f) auto
  with assms have p: "preferredQuality opts video = None" by (rule preferred_miss)
  from a have n: "firstAvailable video = None" by (simp add: firstAvailable_None)
  from p n show "fst (selectQuality opts video) = None"
    by (simp add: selectQuality_fallback)
  from p n show "downloadSelected w opts video = downloadVideo w opts JUndefined [] video"
    by (simp add: downloadSelected_def selectQuality_fallback Let_def)
qed

theorem quality_selection_witness:
  "qualityMap (toLowerCase (quality defaultOptions)) = Some (OwnField Url_video_hd) \<and>
   truthy (videoField tatort Url_video_hd) \<and>
   fst (selectQuality defaultOptions tatort) = Some Url_video_hd \<and>
   \<not> truthy (videoField heute Url_video_hd) \<and>
   firstAvailable heute = Some Url_video \<and>
   fst (selectQuality defaultOptions heute) = Some Url_video \<and>
   \<not> truthy (url_video_hd noUrls) \<and> \<not> truthy (url_video noUrls) \<and>
   \<not> truthy (url_video_low noUrls) \<and>
   fst (selectQuality defaultOptions noUrls) = None \<and>
   downloadSelected sampleWorld defaultOptions noUrls =
     downloadVideo sampleWorld defaultOptions JUndefined [] noUrls"
proof -
  note h = default_quality_is_hd
  have t: "truthy (videoField tatort Url_video_hd)" by (simp add: tatort_def)
  have u: "\<not> truthy (videoField heute Url_video_hd)" by (simp add: heute_def)
  have f: "firstAvailable heute = Some Url_video"
    by (simp add: firstAvailable_def fallbackOrder_def heute_def)
  have n: "\<not> truthy (url_video_hd noUrls) \<and> \<not> truthy (url_video noUrls) \<and>
           \<not> truthy (url_video_low noUrls)"
    by (simp add: noUrls_def)
  from quality_selection[OF h, of tatort sampleWorld] t
  have 1: "fst (selectQuality defaultOptions tatort) = Some Url_video_hd" by blast
  from quality_selection[OF h, of heute sampleWorld] u f
  have 2: "fst (selectQuality defaultOptions heute) = Some Url_video" by simp
  from quality_selection[OF h, of noUrls sampleWorld] n
  have 3: "fst (selectQuality defaultOptions noUrls) = None \<and>
           downloadSelected sampleWorld defaultOptions noUrls =
             downloadVideo sampleWorld defaultOptions JUndefined [] noUrls" by blast
  from h t u f n 1 2 3 show ?thesis by blast
qed

text \<open>
  The claim says that the caller aborts the download when no URL is available. For the
  entry \<open>noUrls\<close>, whose three URLs are empty, the download action goes on instead: it
  asks for a file name, announces the download, fetches the undefined URL and reports the
  failure of that.
\<close>

theorem quality_selection_counterexample:
  "fst (selectQuality defaultOptions noUrls) = None \<and>
   getAndDownloadVideo sampleWorld defaultOptions ''n0'' =
     [SpinnerStart ''Fetching video details for ID: n0'',
      HttpPost ''https://mediathekviewweb.de/api/entries'' ''n0'',
      SpinnerSucceed ''Video details fetched'',
      LogVideoDetails ''Sendung ohne Video'' ''ARD'' 60,
      Prompt ''customFilename'',
      ConsoleLog ''Downloading to: /tmp/Sendung ohne Video-ARD.mp4'',
      SpinnerStart ''Starting download...'',
      SpawnWhichMpv,
      HttpGetAsset JUndefined,
      SpinnerFail ''Download failed'',
      ConsoleErrorObject [] (TypeError ''Only absolute URLs are supported''),
      ProcessExit 0]"
proof -
  have s: "selectQuality defaultOptions noUrls = (None, [])"
    by (simp add: selectQuality_def preferredQuality_def qualityMap_def toLowerCase_def
        sample_defs)
  have c: "chooseFilename sampleWorld defaultOptions noUrls =
             ([Prompt ''customFilename''], Inr ''/tmp/Sendung ohne Video-ARD.mp4'')"
    by (simp add: chooseFilename_def askFilename_def sanitizeTitle_def pathJoin_def sample_defs)
  have t: "transferAsset sampleWorld JUndefined ''/tmp/Sendung ohne Video-ARD.mp4'' =
             [HttpGetAsset JUndefined, SpinnerFail ''Download failed'',
              ConsoleErrorObject [] (TypeError ''Only absolute URLs are supported'')]"
    by (simp add: transferAsset_def downloadFailed_def sampleWorld_def)
  have m: "\<not> mpvAvailable sampleWorld" by (simp add: sampleWorld_def)
  have d: "downloadSelected sampleWorld defaultOptions noUrls =
             ([Prompt ''customFilename'',
               ConsoleLog ''Downloading to: /tmp/Sendung ohne Video-ARD.mp4'',
               SpinnerStart ''Starting download...'', SpawnWhichMpv,
               HttpGetAsset JUndefined, SpinnerFail ''Download failed'',
               ConsoleErrorObject [] (TypeError ''Only absolute URLs are supported'')], None)"
    by (simp add: downloadSelected_def downloadVideo_def s c t m)
  have f: "fetchEntries sampleWorld ''n0'' =
             Inr \<lparr>err = JUndefined, result = Some \<lparr>results = Some [noUrls]\<rparr>\<rparr>"
    by (simp add: sampleWorld_def)
  have g: "server defaultOptions = ''https://mediathekviewweb.de''"
    by (simp add: sample_defs)
  have n: "title noUrls = ''Sendung ohne Video''" "channel noUrls = ''ARD''" "duration noUrls = 60"
    by (simp_all add: noUrls_def)
  show ?thesis
    by (simp add: s getAndDownloadVideo_def f d g n)
qed

text \<open>
  Claim C10. A \<^verbatim>\<open>--quality\<close> value that, in lower case, is none of \<^verbatim>\<open>hd\<close>, \<^verbatim>\<open>medium\<close>,
  \<^verbatim>\<open>low\<close> changes nothing: the selection is the one made with an empty preference, the
  first available tier in the order high, medium, low, and all it does is print the line
  that names the selected tier.
\<close>

theorem invalid_quality_ignored:
  assumes "toLowerCase (quality opts) \<notin> {''hd'', ''medium'', ''low''}"
  shows "selectQuality opts video = selectQuality (opts\<lparr>quality := []\<rparr>) video \<and>
         fst (selectQuality opts video) = firstAvailable video \<and>
         snd (selectQuality opts video) =
           (case firstAvailable video of
              None \<Rightarrow> []
            | Some f \<Rightarrow> [ConsoleLog (''Selected quality: '' @ tierLabel f)])"
proof -
  from assms have p: "preferredQuality opts video = None" by (rule preferred_invalid)
  have q: "preferredQuality (opts\<lparr>quality := []\<rparr>) video = None"
    by (simp add: preferredQuality_def)
  show ?thesis
    by (simp add: selectQuality_fallback[OF p] selectQuality_fallback[OF q] split: option.splits)
qed

theorem invalid_quality_ignored_witness:
  "toLowerCase (quality (defaultOptions\<lparr>quality := ''4K''\<rparr>)) \<notin> {''hd'', ''medium'', ''low''} \<and>
   selectQuality (defaultOptions\<lparr>quality := ''4K''\<rparr>) heute =
     (Some Url_video, [ConsoleLog ''Selected quality: Medium''])"
proof -
  have h: "toLowerCase (quality (defaultOptions\<lparr>quality := ''4K''\<rparr>)) \<notin> {''hd'', ''medium'', ''low''}"
    by (simp add: toLowerCase_def)
  have f: "firstAvailable heute = Some Url_video"
    by (simp add: firstAvailable_def fallbackOrder_def heute_def)
  from invalid_quality_ignored[OF h, of heute, THEN conjunct2] f
  have a: "fst (selectQuality (defaultOptions\<lparr>quality := ''4K''\<rparr>) heute) = Some Url_video"
   and b: "snd (selectQuality (defaultOptions\<lparr>quality := ''4K''\<rparr>) heute) =
             [ConsoleLog ''Selected quality: Medium'']"
    by simp_all
  from a b have "selectQuality (defaultOptions\<lparr>quality := ''4K''\<rparr>) heute =
          (Some Url_video, [ConsoleLog ''Selected quality: Medium''])"
    by (rule prod_eqI[of _ "(Some Url_video, [ConsoleLog ''Selected quality: Medium''])", simplified])
  with h show ?thesis by blast
qed

section \<open>Searching: exclusions and the channel filter\<close>

lemma searchCallback_results:
  assumes "\<not> truthy (err response)" "result response = Some r" "results r = Some R"
  shows "searchCallback dbg E response =
           (SpinnerStop #
            (if E \<noteq> [] \<and> length (withoutChannels E R) < length R
             then [LogExcluded (length R - length (withoutChannels E R)) E] else []) @
            (if E \<noteq> [] \<and> dbg
             then [DebugFiltered (length R) (length (withoutChannels E R))
                     (length R - length (withoutChannels E R))]
             else []),
            Resolved (withoutChannels E R))"
proof (cases "E = []")
  case True
  then show ?thesis using assms by (simp add: searchCallback_def withoutChannels_def)
next
  case False
  have "length (withoutChannels E R) \<le> length R" by (simp add: withoutChannels_def)
  then show ?thesis using assms False
    by (auto simp: searchCallback_def withoutChannels_def Let_def)
qed

lemma withoutChannels_subset: "set (withoutChannels E R) \<subseteq> set R"
  by (auto simp: withoutChannels_def)

lemma searchCallback_Resolved:
  "snd (searchCallback dbg E response) = Resolved rs \<Longrightarrow>
   \<exists>r R. result response = Some r \<and> results r = Some R \<and> rs = withoutChannels E R"
  by (auto simp: searchCallback_def withoutChannels_def Let_def split: if_splits option.splits)

text \<open>
  Claim C2. Whatever the exclusion list and whatever result sequence the backend sends,
  the search resolves with that sequence without the entries of an excluded channel, in
  the order received; every excluded count it reports, on the console or in the debug
  record, is the number of entries removed; and the console line is there whenever an
  entry was removed.
\<close>

theorem exclusion_postfilter:
  assumes "\<not> truthy (err (queryEntries w (prepareQuery q chan lim)))"
      and "result (queryEntries w (prepareQuery q chan lim)) = Some r"
      and "results r = Some R"
  shows "snd (searchMovies w opts q chan lim excl) =
           Resolved (withoutChannels (excludedChannelsList excl) R) \<and>
         (\<forall>n names. LogExcluded n names \<in> set (fst (searchMovies w opts q chan lim excl)) \<longrightarrow>
            n = length R - length (withoutChannels (excludedChannelsList excl) R)) \<and>
         (\<forall>a b n. DebugFiltered a b n \<in> set (fst (searchMovies w opts q chan lim excl)) \<longrightarrow>
            n = length R - length (withoutChannels (excludedChannelsList excl) R)) \<and>
         (length (withoutChannels (excludedChannelsList excl) R) < length R \<longrightarrow>
            LogExcluded (length R - length (withoutChannels (excludedChannelsList excl) R))
              (excludedChannelsList excl)
              \<in> set (fst (searchMovies w opts q chan lim excl)))"
proof -
  have E: "length (withoutChannels [] R) = length R" by (simp add: withoutChannels_def)
  show ?thesis
    unfolding searchMovies_def Let_def searchCallback_results[OF assms]
    using E by auto
qed

theorem exclusion_postfilter_witness:
  "\<not> truthy (err (queryEntries sampleWorld (prepareQuery ''Tatort'' JNull None))) \<and>
   result (queryEntries sampleWorld (prepareQuery ''Tatort'' JNull None)) =
     Some \<lparr>results = Some [tatort, heute]\<rparr> \<and>
   excludedChannelsList (Some ''ZDF, NDR'') = [''ZDF'', ''NDR''] \<and>
   withoutChannels [''ZDF'', ''NDR''] [tatort, heute] = [tatort] \<and>
   snd (searchMovies sampleWorld defaultOptions ''Tatort'' JNull None (Some ''ZDF, NDR'')) =
     Resolved [tatort] \<and>
   LogExcluded 1 [''ZDF'', ''NDR'']
     \<in> set (fst (searchMovies sampleWorld defaultOptions ''Tatort'' JNull None (Some ''ZDF, NDR'')))"
proof -
  have a: "\<not> truthy (err (queryEntries sampleWorld (prepareQuery ''Tatort'' JNull None)))"
    by (simp add: sampleWorld_def)
  have b: "result (queryEntries sampleWorld (prepareQuery ''Tatort'' JNull None)) =
             Some \<lparr>results = Some [tatort, heute]\<rparr>"
    by (simp add: sampleWorld_def)
  have c: "results \<lparr>results = Some [tatort, heute]\<rparr> = Some [tatort, heute]" by simp
  have e: "excludedChannelsList (Some ''ZDF, NDR'') = [''ZDF'', ''NDR'']"
    by (simp add: excludedChannelsList_def trim_def isWhiteSpace_def)
  have k: "withoutChannels [''ZDF'', ''NDR''] [tatort, heute] = [tatort]"
    by (simp add: withoutChannels_def tatort_def heute_def)
  from exclusion_postfilter[OF a b c, of defaultOptions "Some ''ZDF, NDR''"]
  have "snd (searchMovies sampleWorld defaultOptions ''Tatort'' JNull None (Some ''ZDF, NDR'')) =
          Resolved [tatort] \<and>
        LogExcluded 1 [''ZDF'', ''NDR'']
          \<in> set (fst (searchMovies sampleWorld defaultOptions ''Tatort'' JNull None (Some ''ZDF, NDR'')))"
    by (simp add: e k)
  with a b e k show ?thesis by blast
qed

text \<open>
  Claim C5, as the code has it. With a non-empty channel filter the query sent to the
  backend carries the clause that matches the channel field against the filter, and the
  entries the search returns are entries of the backend's reply: they all have the
  filter's channel whenever all entries of the reply do. The script itself does not check
  the channel of what it receives.
\<close>

theorem channel_filter_sent:
  assumes "truthy chan"
      and "snd (searchMovies w opts q chan lim excl) = Resolved rs"
  shows "\<lparr>clause_fields = [''channel''], clause_query = chan\<rparr>
           \<in> set (queries (prepareQuery q chan lim)) \<and>
         EmitQueryEntries (prepareQuery q chan lim)
           \<in> set (fst (searchMovies w opts q chan lim excl)) \<and>
         (\<exists>r R. result (queryEntries w (prepareQuery q chan lim)) = Some r \<and>
                 results r = Some R \<and> set rs \<subseteq> set R \<and>
                 ((\<forall>e \<in> set R. JStr (channel e) = chan) \<longrightarrow>
                  (\<forall>e \<in> set rs. JStr (channel e) = chan)))"
proof -
  from assms(2) obtain r R where
    r: "result (queryEntries w (prepareQuery q chan lim)) = Some r" "results r = Some R"
       "rs = withoutChannels (excludedChannelsList excl) R"
    using searchCallback_Resolved by (fastforce simp: searchMovies_def Let_def)
  have sub: "set rs \<subseteq> set R" using r(3) withoutChannels_subset by simp
  have c: "\<lparr>clause_fields = [''channel''], clause_query = chan\<rparr>
             \<in> set (queries (prepareQuery q chan lim))"
    using assms(1) by (simp add: prepareQuery_def)
  have e: "EmitQueryEntries (prepareQuery q chan lim)
             \<in> set (fst (searchMovies w opts q chan lim excl))"
    by (simp add: searchMovies_def Let_def)
  from r sub c e show ?thesis by blast
qed

lemma ard_search:
  "snd (searchMovies ardWorld defaultOptions ''Tatort'' (JStr ''ARD'') None None) =
     Resolved [tatort]"
  by (simp add: searchMovies_def searchCallback_def excludedChannelsList_def ardWorld_def
      sampleWorld_def)

theorem channel_filter_sent_witness:
  "truthy (JStr ''ARD'') \<and>
   snd (searchMovies ardWorld defaultOptions ''Tatort'' (JStr ''ARD'') None None) =
     Resolved [tatort] \<and>
   \<lparr>clause_fields = [''channel''], clause_query = JStr ''ARD''\<rparr>
     \<in> set (queries (prepareQuery ''Tatort'' (JStr ''ARD'') None)) \<and>
   EmitQueryEntries (prepareQuery ''Tatort'' (JStr ''ARD'') None)
     \<in> set (fst (searchMovies ardWorld defaultOptions ''Tatort'' (JStr ''ARD'') None None)) \<and>
   result (queryEntries ardWorld (prepareQuery ''Tatort'' (JStr ''ARD'') None)) =
     Some \<lparr>results = Some [tatort]\<rparr> \<and>
   JStr (channel tatort) = JStr ''ARD''"
proof -
  have t: "truthy (JStr ''ARD'')" by simp
  have r: "result (queryEntries ardWorld (prepareQuery ''Tatort'' (JStr ''ARD'') None)) =
             Some \<lparr>results = Some [tatort]\<rparr>"
    by (simp add: ardWorld_def)
  have c: "JStr (channel tatort) = JStr ''ARD''" by (simp add: tatort_def)
  from channel_filter_sent[OF t ard_search] t ard_search r c
  show ?thesis by blast
qed

text \<open>
  The claim says that every entry returned under a channel filter has that channel. The
  sample backend answers the query for channel ARD with an entry of ZDF among the
  results, and the search returns it.
\<close>

theorem channel_filter_counterexample:
  "snd (searchMovies sampleWorld defaultOptions ''Tatort'' (JStr ''ARD'') None None) =
     Resolved [tatort, heute] \<and>
   channel heute = ''ZDF'' \<and> channel heute \<noteq> ''ARD''"
proof -
  have "snd (searchMovies sampleWorld defaultOptions ''Tatort'' (JStr ''ARD'') None None) =
          Resolved [tatort, heute]"
    by (simp add: searchMovies_def searchCallback_def excludedChannelsList_def sampleWorld_def)
  then show ?thesis by (simp add: heute_def)
qed

section \<open>Lookup by identifier\<close>

text \<open>
  Where the reply has a result object: with no error and the result set
  \<^verbatim>\<open>data.result.results\<close> missing or empty, the action reports that no video was found
  and the process exits with code 1.
\<close>

theorem lookup_not_found:
  assumes "fetchEntries w ident = Inr data"
      and "\<not> truthy (err data)"
      and "result data = Some r"
      and "results r = None \<or> results r = Some []"
  shows "getAndDownloadVideo w opts ident =
           [SpinnerStart (''Fetching video details for ID: '' @ ident),
            HttpPost (server opts @ ''/api/entries'') ident,
            SpinnerFail (''No video found with ID: '' @ ident),
            ProcessExit 1] \<and>
         exitCode (getAndDownloadVideo w opts ident) = Some 1"
  using assms by (auto simp: getAndDownloadVideo_def notFound_def)

theorem lookup_not_found_witness:
  "fetchEntries emptyWorld ''zzz'' = Inr \<lparr>err = JUndefined, result = Some \<lparr>results = Some []\<rparr>\<rparr> \<and>
   \<not> truthy JUndefined \<and>
   getAndDownloadVideo emptyWorld defaultOptions ''zzz'' =
     [SpinnerStart ''Fetching video details for ID: zzz'',
      HttpPost ''https://mediathekviewweb.de/api/entries'' ''zzz'',
      SpinnerFail ''No video found with ID: zzz'',
      ProcessExit 1] \<and>
   exitCode (getAndDownloadVideo emptyWorld defaultOptions ''zzz'') = Some 1"
proof -
  have f: "fetchEntries emptyWorld ''zzz'' =
             Inr \<lparr>err = JUndefined, result = Some \<lparr>results = Some []\<rparr>\<rparr>"
    by (simp add: emptyWorld_def)
  have e: "\<not> truthy (err \<lparr>err = JUndefined, result = Some \<lparr>results = Some []\<rparr>\<rparr>)" by simp
  have r: "result \<lparr>err = JUndefined, result = Some \<lparr>results = Some []\<rparr>\<rparr> =
             Some \<lparr>results = Some []\<rparr>" by simp
  have s: "results \<lparr>results = Some []\<rparr> = None \<or> results \<lparr>results = Some []\<rparr> = Some []"
    by simp
  have g: "server defaultOptions = ''https://mediathekviewweb.de''" by (simp add: sample_defs)
  from lookup_not_found[OF f e r s, of defaultOptions] f show ?thesis by (simp add: g)
qed

text \<open>
  Claim C4 fails on the code. A reply that is the empty object has no error field and no
  result set. The test \<^verbatim>\<open>!data.result.results\<close> then reads a property of \<^verbatim>\<open>undefined\<close>:
  the \<^verbatim>\<open>catch\<close> prints that processing the video failed, not that no video was found, and
  the process exits with code 0. (The \<^verbatim>\<open>debug\<close> call before it reads the same field as
  \<^verbatim>\<open>data.result?.results?.length\<close>.)
\<close>

theorem lookup_bare_reply:
  "getAndDownloadVideo bareReplyWorld defaultOptions ''zzz'' =
     [SpinnerStart ''Fetching video details for ID: zzz'',
      HttpPost ''https://mediathekviewweb.de/api/entries'' ''zzz'',
      SpinnerFail ''Failed to process video'',
      ConsoleErrorObject [] (TypeError ''data.result is undefined''),
      ProcessExit 0] \<and>
   exitCode (getAndDownloadVideo bareReplyWorld defaultOptions ''zzz'') = Some 0"
proof -
  have f: "fetchEntries bareReplyWorld ''zzz'' = Inr \<lparr>err = JUndefined, result = None\<rparr>"
    by (simp add: bareReplyWorld_def)
  have t: "getAndDownloadVideo bareReplyWorld defaultOptions ''zzz'' =
     [SpinnerStart ''Fetching video details for ID: zzz'',
      HttpPost ''https://mediathekviewweb.de/api/entries'' ''zzz'',
      SpinnerFail ''Failed to process video'',
      ConsoleErrorObject [] (TypeError ''data.result is undefined''),
      ProcessExit 0]"
    by (simp add: getAndDownloadVideo_def f processFailed_def default_server)
  show ?thesis by (simp add: t)
qed

section \<open>An unreadable configuration file\<close>

text \<open>
  Claim C8. When the configuration file exists and reading or parsing it throws, loading
  yields the empty configuration and prints the warning, without ending the process;
  the options are then the built-in defaults (the default server, quality \<^verbatim>\<open>hd\<close>) under
  whatever the command line gives, and the program goes on to the connect handler.
\<close>

theorem unparsable_config:
  assumes "configExists fs"
      and "readConfig fs = Inl e \<or> (\<exists>content. readConfig fs = Inr content \<and> parse content = Inl e)"
  shows "loadConfig parse home fs = (emptyConfig, parseWarning home e) \<and>
         exitCode (snd (loadConfig parse home fs)) = None \<and>
         programOptions (fst (loadConfig parse home fs)) args = programOptions emptyConfig args \<and>
         server (programOptions emptyConfig noArgs) = DEFAULT_SERVER \<and>
         quality (programOptions emptyConfig noArgs) = ''hd'' \<and>
         program parse fs args w Connects =
           parseWarning (homedir w) e @ snd (connectHandler w (programOptions emptyConfig args))"
proof -
  have l: "\<And>h. loadConfig parse h fs = (emptyConfig, parseWarning h e)"
    using assms by (auto simp: loadConfig_def)
  have x: "exitCode (parseWarning home e) = None" by (simp add: parseWarning_def)
  have d: "server (programOptions emptyConfig noArgs) = DEFAULT_SERVER"
          "quality (programOptions emptyConfig noArgs) = ''hd''"
    by (simp_all add: programOptions_def emptyConfig_def noArgs_def)
  show ?thesis using l x d by (simp add: program_def Let_def)
qed

theorem unparsable_config_witness:
  "configExists brokenFs \<and>
   readConfig brokenFs = Inl (ExternalError ''EACCES: permission denied'') \<and>
   loadConfig noParse ''/home/user'' brokenFs =
     (emptyConfig,
      [ConsoleError ''Warning: Could not parse config file /home/user/.mediathekviewrc'',
       ConsoleError ''EACCES: permission denied'']) \<and>
   exitCode (snd (loadConfig noParse ''/home/user'' brokenFs)) = None \<and>
   configExists garbledFs \<and>
   readConfig garbledFs = Inr ''[server'' \<and>
   noParse ''[server'' = Inl (ExternalError ''unparsable'') \<and>
   loadConfig noParse ''/home/user'' garbledFs =
     (emptyConfig,
      [ConsoleError ''Warning: Could not parse config file /home/user/.mediathekviewrc'',
       ConsoleError ''unparsable'']) \<and>
   exitCode (snd (loadConfig noParse ''/home/user'' garbledFs)) = None"
proof -
  have c: "configExists brokenFs" by (simp add: brokenFs_def)
  have r: "readConfig brokenFs = Inl (ExternalError ''EACCES: permission denied'')"
    by (simp add: brokenFs_def)
  have r': "readConfig brokenFs = Inl (ExternalError ''EACCES: permission denied'') \<or>
            (\<exists>content. readConfig brokenFs = Inr content \<and>
               noParse content = Inl (ExternalError ''EACCES: permission denied''))"
    using r by simp
  have g: "configExists garbledFs" by (simp add: garbledFs_def)
  have t: "readConfig garbledFs = Inr ''[server''" by (simp add: garbledFs_def)
  have n: "noParse ''[server'' = Inl (ExternalError ''unparsable'')" by (simp add: noParse_def)
  have t': "readConfig garbledFs = Inl (ExternalError ''unparsable'') \<or>
            (\<exists>content. readConfig garbledFs = Inr content \<and>
               noParse content = Inl (ExternalError ''unparsable''))"
    using t n by simp
  from unparsable_config[OF c r', of "''/home/user''"]
  have 1: "loadConfig noParse ''/home/user'' brokenFs =
     (emptyConfig,
      [ConsoleError ''Warning: Could not parse config file /home/user/.mediathekviewrc'',
       ConsoleError ''EACCES: permission denied''])"
   and 2: "exitCode (snd (loadConfig noParse ''/home/user'' brokenFs)) = None"
    by (simp_all add: parseWarning_def CONFIG_FILE_def)
  from unparsable_config[OF g t', of "''/home/user''"]
  have 3: "loadConfig noParse ''/home/user'' garbledFs =
     (emptyConfig,
      [ConsoleError ''Warning: Could not parse config file /home/user/.mediathekviewrc'',
       ConsoleError ''unparsable''])"
   and 4: "exitCode (snd (loadConfig noParse ''/home/user'' garbledFs)) = None"
    by (simp_all add: parseWarning_def CONFIG_FILE_def)
  from c r g t n 1 2 3 4 show ?thesis by blast
qed

section \<open>The command the connect handler runs\<close>

lemma footprints_append: "footprints (xs @ ys) = footprints xs \<union> footprints ys"
  by (induction xs) (auto split: option.splits)

lemma footprints_channel_lines: "footprints (map (\<lambda>c. ConsoleLog (g c)) cs) = {}"
  by (induction cs) auto

lemma footprints_listChannels: "footprints (listChannels w k opts) = {Listing}"
  by (auto simp: listChannels_def footprints_append footprints_channel_lines
      split: sum.splits option.splits)

lemma footprints_searchCallback: "footprints (fst (searchCallback dbg E response)) = {}"
  by (auto simp: searchCallback_def uncaughtException_def Let_def split: option.splits)

lemma footprints_searchMovies:
  "footprints (fst (searchMovies w opts q chan lim excl)) = {Searching}"
  by (simp add: searchMovies_def Let_def footprints_searchCallback)

lemma footprints_searchCommand: "footprints (searchCommand w opts q) = {Searching}"
proof -
  obtain ev out where s: "searchMovies w opts q (opt_channel opts) (limit opts) (exclude opts) = (ev, out)"
    by (cases "searchMovies w opts q (opt_channel opts) (limit opts) (exclude opts)")
  with footprints_searchMovies[of w opts q "opt_channel opts" "limit opts" "exclude opts"]
  have e: "footprints ev = {Searching}" by simp
  show ?thesis
    by (cases out)
       (auto simp: searchCommand_def s e footprints_append unhandledRejection_def
          split: option.splits)
qed

lemma footprints_selectQuality: "footprints (snd (selectQuality opts video)) = {}"
  by (auto simp: selectQuality_def split: option.splits)

lemma footprints_chooseFilename: "footprints (fst (chooseFilename w opts video)) = {}"
  by (auto simp: chooseFilename_def askFilename_def Let_def split: option.splits sum.splits)

lemma footprints_transferAsset: "footprints (transferAsset w url filename) = {}"
  by (auto simp: transferAsset_def downloadFailed_def split: transfer.splits)

lemma footprints_downloadVideo: "footprints (fst (downloadVideo w opts url f0 video)) = {}"
proof -
  obtain ev r where c: "chooseFilename w opts video = (ev, r)"
    by (cases "chooseFilename w opts video")
  with footprints_chooseFilename[of w opts video] have e: "footprints ev = {}" by simp
  show ?thesis
    by (cases r)
       (auto simp: downloadVideo_def c e footprints_append footprints_transferAsset
          downloadFailed_def split: sum.splits)
qed

lemma footprints_downloadSelected: "footprints (fst (downloadSelected w opts video)) = {}"
  by (simp add: downloadSelected_def Let_def footprints_append footprints_selectQuality
      footprints_downloadVideo)

lemma footprints_processFailed: "footprints (processFailed e) = {}"
  by (simp add: processFailed_def)

lemma footprints_getAndDownloadVideo: "footprints (getAndDownloadVideo w opts ident) = {LookingUp}"
proof -
  have d: "\<And>video. footprints
             (case downloadSelected w opts video of
                (ev, None) \<Rightarrow> ev
              | (ev, Some e) \<Rightarrow> ev @ processFailed e) = {}"
  proof -
    fix video
    obtain ev r where s: "downloadSelected w opts video = (ev, r)"
      by (cases "downloadSelected w opts video")
    with footprints_downloadSelected[of w opts video] have "footprints ev = {}" by simp
    then show "footprints
             (case downloadSelected w opts video of
                (ev, None) \<Rightarrow> ev
              | (ev, Some e) \<Rightarrow> ev @ processFailed e) = {}"
      by (cases r) (simp_all add: s footprints_append footprints_processFailed)
  qed
  show ?thesis
    by (auto simp: getAndDownloadVideo_def footprints_processFailed notFound_def
        footprints_append d split: sum.splits option.splits list.splits)
qed

lemma resolveChannel_keeps:
  "channels (fst (resolveChannel w opts)) = channels opts"
  "query (fst (resolveChannel w opts)) = query opts"
  "download (fst (resolveChannel w opts)) = download opts"
  "interactive (fst (resolveChannel w opts)) = interactive opts"
  by (auto simp: resolveChannel_def fetchChannelsFailed_def Let_def
      split: sum.splits option.splits)

lemma selectAction_resolved: "selectAction (fst (resolveChannel w opts)) = selectAction opts"
  by (simp add: selectAction_def resolveChannel_keeps split: option.splits)

lemma footprints_resolveChannel: "footprints (snd (resolveChannel w opts)) = {}"
  by (auto simp: resolveChannel_def fetchChannelsFailed_def Let_def
      split: sum.splits option.splits)

lemma footprints_handlerPrefix: "footprints (handlerPrefix w opts) = {}"
  by (simp add: handlerPrefix_def footprints_resolveChannel)

lemma footprints_loadConfig: "footprints (snd (loadConfig parse home fs)) = {}"
  by (auto simp: loadConfig_def parseWarning_def createDefaultConfig_def
      split: sum.splits option.splits)

lemma footprints_describeVideo: "footprints (describeVideo w video) = {}"
  by (simp add: describeVideo_def Let_def)

lemma footprints_interactiveFailed: "footprints (interactiveFailed e) = {}"
  by (simp add: interactiveFailed_def)

lemma footprints_startInteractiveMode:
  "footprints (startInteractiveMode w k opts) \<subseteq> {AskingQuery, Searching}"
  by (auto simp: startInteractiveMode_def case_prod_beta footprints_append
      footprints_interactiveFailed footprints_searchMovies footprints_describeVideo
      footprints_downloadSelected
      split: sum.splits option.splits settled.splits)

lemma resolveChannel_server: "server (fst (resolveChannel w opts)) = server opts"
  by (auto simp: resolveChannel_def fetchChannelsFailed_def Let_def
      split: sum.splits option.splits)

lemma interactive_starts:
  "\<exists>rest. startInteractiveMode w k opts = HttpGet (server opts @ ''/api/channels'') # rest"
  by (simp add: startInteractiveMode_def)

lemma interactive_goes_on:
  assumes "fetchChannels w k = Inr d" "answerSearchQuery w = Inr sq"
  shows "(\<exists>rest. startInteractiveMode w k opts =
            HttpGet (server opts @ ''/api/channels'') # Prompt ''searchQuery'' # rest) \<and>
         EmitQueryEntries
           (prepareQuery sq (if truthy (opt_channel opts) then opt_channel opts else JNull)
              (orNull (limit opts)))
           \<in> set (startInteractiveMode w k opts)"
  using assms
  by (auto simp: startInteractiveMode_def searchMovies_def case_prod_beta Let_def
      split: option.splits settled.splits)

lemma footprints_member: "e \<in> set tr \<Longrightarrow> footprintOf e = Some f \<Longrightarrow> f \<in> footprints tr"
  by (induction tr) (auto split: option.splits)

lemma footprints_interactive_search:
  assumes "fetchChannels w k = Inr d" "answerSearchQuery w = Inr sq"
  shows "footprints (startInteractiveMode w k opts) = {AskingQuery, Searching}"
proof
  show "footprints (startInteractiveMode w k opts) \<subseteq> {AskingQuery, Searching}"
    by (rule footprints_startInteractiveMode)
  from interactive_goes_on[OF assms, of opts]
  have p: "Prompt ''searchQuery'' \<in> set (startInteractiveMode w k opts)"
   and e: "EmitQueryEntries
             (prepareQuery sq (if truthy (opt_channel opts) then opt_channel opts else JNull)
                (orNull (limit opts)))
             \<in> set (startInteractiveMode w k opts)"
    by auto
  have "AskingQuery \<in> footprints (startInteractiveMode w k opts)"
    by (rule footprints_member[OF p]) simp
  moreover have "Searching \<in> footprints (startInteractiveMode w k opts)"
    by (rule footprints_member[OF e]) simp
  ultimately show "{AskingQuery, Searching} \<subseteq> footprints (startInteractiveMode w k opts)"
    by simp
qed

lemma connectHandler_trace:
  "snd (connectHandler w opts) =
     handlerPrefix w opts @
     perform w (fetchesBefore opts) (resolvedOptions w opts) (selectAction opts)"
  by (simp add: connectHandler_def Let_def selectAction_resolved handlerPrefix_def
      resolvedOptions_def fetchesBefore_def)

lemma searchCommand_runs_searchMovies:
  "\<exists>before after.
      searchCommand w opts q =
        before @ fst (searchMovies w opts q (opt_channel opts) (limit opts) (exclude opts)) @ after"
proof -
  obtain ev out where s: "searchMovies w opts q (opt_channel opts) (limit opts) (exclude opts) = (ev, out)"
    by (cases "searchMovies w opts q (opt_channel opts) (limit opts) (exclude opts)")
  let ?pre = "(if truthy (opt_channel opts)
               then ConsoleLogValue ''Searching in channel: '' (opt_channel opts)
               else ConsoleLog ''Searching in ALL channels'') #
              (case orNull (exclude opts) of
                 None \<Rightarrow> []
               | Some excludeChannels \<Rightarrow> [ConsoleLog (''Excluding channels: '' @ excludeChannels)])"
  have "searchCommand w opts q =
          ?pre @ ev @ (case out of Rejected reason \<Rightarrow> unhandledRejection reason | _ \<Rightarrow> [])"
    by (cases out) (simp_all add: searchCommand_def s)
  then show ?thesis using s by (metis fst_conv)
qed

text \<open>
  Claim C9, as the code has it. The command is chosen and run by the connect handler, so
  an invocation whose socket never connects runs no action. Each time the handler runs,
  its trace is the greeting and the channel prompt, if there is one, followed by the
  trace of exactly one of \<^verbatim>\<open>listChannels\<close>, the search command (which runs
  \<^verbatim>\<open>searchMovies\<close>), \<^verbatim>\<open>getAndDownloadVideo\<close> and \<^verbatim>\<open>startInteractiveMode\<close>, and the
  trace bears the footprint of that action and of no other (interactive mode includes a
  search). The action is ListChannels when \<^verbatim>\<open>--channels\<close> is given; otherwise Search
  when a query is given; otherwise DownloadById when an identifier is given; otherwise
  Interactive, with or without \<^verbatim>\<open>--interactive\<close>. An option counts as given when its
  value is not empty.
\<close>

theorem one_action:
  "program parse fs args w Connects =
     snd (loadConfig parse (homedir w) fs) @
     snd (connectHandler w (programOptions (fst (loadConfig parse (homedir w) fs)) args)) \<and>
   program parse fs args w Silent = snd (loadConfig parse (homedir w) fs) \<and>
   footprints (program parse fs args w Silent) = {} \<and>
   fst (connectHandler w opts) = selectAction opts \<and>
   (channels opts \<longrightarrow>
      selectAction opts = ListChannels \<and>
      snd (connectHandler w opts) =
        handlerPrefix w opts @ listChannels w (fetchesBefore opts) (resolvedOptions w opts) \<and>
      footprints (snd (connectHandler w opts)) = {Listing}) \<and>
   (\<not> channels opts \<and> query opts = Some q \<and> q \<noteq> [] \<longrightarrow>
      selectAction opts = Search q \<and>
      snd (connectHandler w opts) =
        handlerPrefix w opts @ searchCommand w (resolvedOptions w opts) q \<and>
      (\<exists>before after.
          searchCommand w (resolvedOptions w opts) q =
            before @
            fst (searchMovies w (resolvedOptions w opts) q (opt_channel (resolvedOptions w opts))
                   (limit (resolvedOptions w opts)) (exclude (resolvedOptions w opts))) @
            after) \<and>
      footprints (snd (connectHandler w opts)) = {Searching}) \<and>
   (\<not> channels opts \<and> \<not> given (query opts) \<and> download opts = Some i \<and> i \<noteq> [] \<longrightarrow>
      selectAction opts = DownloadById i \<and>
      snd (connectHandler w opts) =
        handlerPrefix w opts @ getAndDownloadVideo w (resolvedOptions w opts) i \<and>
      footprints (snd (connectHandler w opts)) = {LookingUp}) \<and>
   (\<not> channels opts \<and> \<not> given (query opts) \<and> \<not> given (download opts) \<longrightarrow>
      selectAction opts = Interactive \<and>
      snd (connectHandler w opts) =
        handlerPrefix w opts @
        startInteractiveMode w (fetchesBefore opts) (resolvedOptions w opts) \<and>
      (\<exists>rest. startInteractiveMode w (fetchesBefore opts) (resolvedOptions w opts) =
                HttpGet (server opts @ ''/api/channels'') # rest) \<and>
      footprints (snd (connectHandler w opts)) \<subseteq> {AskingQuery, Searching}) \<and>
   (\<not> channels opts \<and> \<not> given (query opts) \<and> \<not> given (download opts) \<and>
    fetchChannels w (fetchesBefore opts) = Inr d \<and> answerSearchQuery w = Inr sq \<longrightarrow>
      footprints (snd (connectHandler w opts)) = {AskingQuery, Searching})"
proof (intro conjI impI)
  show "program parse fs args w Connects =
     snd (loadConfig parse (homedir w) fs) @
     snd (connectHandler w (programOptions (fst (loadConfig parse (homedir w) fs)) args))"
    by (simp add: program_def Let_def)
  show s: "program parse fs args w Silent = snd (loadConfig parse (homedir w) fs)"
    by (simp add: program_def Let_def)
  show "footprints (program parse fs args w Silent) = {}"
    by (simp add: s footprints_loadConfig)
  show "fst (connectHandler w opts) = selectAction opts"
    by (simp add: connectHandler_def Let_def selectAction_resolved)
next
  assume c: "channels opts"
  then show a: "selectAction opts = ListChannels" by (simp add: selectAction_def)
  show t: "snd (connectHandler w opts) =
        handlerPrefix w opts @ listChannels w (fetchesBefore opts) (resolvedOptions w opts)"
    by (simp add: connectHandler_trace a)
  show "footprints (snd (connectHandler w opts)) = {Listing}"
    by (simp add: t footprints_append footprints_handlerPrefix footprints_listChannels)
next
  assume c: "\<not> channels opts \<and> query opts = Some q \<and> q \<noteq> []"
  then show a: "selectAction opts = Search q" by (simp add: selectAction_def orNull_def)
  show t: "snd (connectHandler w opts) =
        handlerPrefix w opts @ searchCommand w (resolvedOptions w opts) q"
    by (simp add: connectHandler_trace a)
  show "\<exists>before after.
          searchCommand w (resolvedOptions w opts) q =
            before @
            fst (searchMovies w (resolvedOptions w opts) q (opt_channel (resolvedOptions w opts))
                   (limit (resolvedOptions w opts)) (exclude (resolvedOptions w opts))) @
            after"
    by (rule searchCommand_runs_searchMovies)
  show "footprints (snd (connectHandler w opts)) = {Searching}"
    by (simp add: t footprints_append footprints_handlerPrefix footprints_searchCommand)
next
  assume c: "\<not> channels opts \<and> \<not> given (query opts) \<and> download opts = Some i \<and> i \<noteq> []"
  then show a: "selectAction opts = DownloadById i"
    by (cases "query opts") (auto simp: selectAction_def orNull_def)
  show t: "snd (connectHandler w opts) =
        handlerPrefix w opts @ getAndDownloadVideo w (resolvedOptions w opts) i"
    by (simp add: connectHandler_trace a)
  show "footprints (snd (connectHandler w opts)) = {LookingUp}"
    by (simp add: t footprints_append footprints_handlerPrefix footprints_getAndDownloadVideo)
next
  assume c: "\<not> channels opts \<and> \<not> given (query opts) \<and> \<not> given (download opts)"
  then show a: "selectAction opts = Interactive"
    by (auto simp: selectAction_def orNull_def)
  show t: "snd (connectHandler w opts) =
        handlerPrefix w opts @
        startInteractiveMode w (fetchesBefore opts) (resolvedOptions w opts)"
    by (simp add: connectHandler_trace a)
  show "\<exists>rest. startInteractiveMode w (fetchesBefore opts) (resolvedOptions w opts) =
                HttpGet (server opts @ ''/api/channels'') # rest"
    using interactive_starts[of w "fetchesBefore opts" "resolvedOptions w opts"]
    by (simp add: resolvedOptions_def resolveChannel_server)
  show "footprints (snd (connectHandler w opts)) \<subseteq> {AskingQuery, Searching}"
    using footprints_startInteractiveMode[of w "fetchesBefore opts" "resolvedOptions w opts"]
    by (simp add: t footprints_append footprints_handlerPrefix)
next
  assume c: "\<not> channels opts \<and> \<not> given (query opts) \<and> \<not> given (download opts) \<and>
    fetchChannels w (fetchesBefore opts) = Inr d \<and> answerSearchQuery w = Inr sq"
  then have a: "selectAction opts = Interactive"
    by (auto simp: selectAction_def orNull_def)
  have t: "snd (connectHandler w opts) =
        handlerPrefix w opts @
        startInteractiveMode w (fetchesBefore opts) (resolvedOptions w opts)"
    by (simp add: connectHandler_trace a)
  from c have f: "fetchChannels w (fetchesBefore opts) = Inr d" and q: "answerSearchQuery w = Inr sq"
    by simp_all
  have "footprints (startInteractiveMode w (fetchesBefore opts) (resolvedOptions w opts)) =
                 {AskingQuery, Searching}"
    by (rule footprints_interactive_search[OF f q])
  then show "footprints (snd (connectHandler w opts)) = {AskingQuery, Searching}"
    by (simp add: t footprints_append footprints_handlerPrefix)
qed

theorem one_action_witness:
  "channels (defaultOptions\<lparr>channels := True, query := Some ''Tatort'', download := Some ''a1''\<rparr>) \<and>
   fst (connectHandler sampleWorld
          (defaultOptions\<lparr>channels := True, query := Some ''Tatort'', download := Some ''a1''\<rparr>)) =
     ListChannels \<and>
   footprints (snd (connectHandler sampleWorld
          (defaultOptions\<lparr>channels := True, query := Some ''Tatort'', download := Some ''a1''\<rparr>))) =
     {Listing} \<and>
   \<not> channels (defaultOptions\<lparr>query := Some ''Tatort'', download := Some ''a1''\<rparr>) \<and>
   query (defaultOptions\<lparr>query := Some ''Tatort'', download := Some ''a1''\<rparr>) = Some ''Tatort'' \<and>
   fst (connectHandler sampleWorld (defaultOptions\<lparr>query := Some ''Tatort'', download := Some ''a1''\<rparr>)) =
     Search ''Tatort'' \<and>
   footprints (snd (connectHandler sampleWorld
          (defaultOptions\<lparr>query := Some ''Tatort'', download := Some ''a1''\<rparr>))) =
     {Searching} \<and>
   \<not> given (query (defaultOptions\<lparr>download := Some ''a1'', interactive := True\<rparr>)) \<and>
   download (defaultOptions\<lparr>download := Some ''a1'', interactive := True\<rparr>) = Some ''a1'' \<and>
   fst (connectHandler sampleWorld (defaultOptions\<lparr>download := Some ''a1'', interactive := True\<rparr>)) =
     DownloadById ''a1'' \<and>
   footprints (snd (connectHandler sampleWorld
          (defaultOptions\<lparr>download := Some ''a1'', interactive := True\<rparr>))) =
     {LookingUp} \<and>
   \<not> channels defaultOptions \<and> \<not> given (query defaultOptions) \<and>
   \<not> given (download defaultOptions) \<and>
   fst (connectHandler sampleWorld defaultOptions) = Interactive \<and>
   snd (connectHandler sampleWorld defaultOptions) =
     handlerPrefix sampleWorld defaultOptions @
     startInteractiveMode sampleWorld (fetchesBefore defaultOptions)
       (resolvedOptions sampleWorld defaultOptions) \<and>
   program parseEmpty plainFs noArgs sampleWorld Silent =
     snd (loadConfig parseEmpty (homedir sampleWorld) plainFs) \<and>
   fetchChannels sampleWorld (fetchesBefore defaultOptions) =
     Inr \<lparr>data_channels = Some [''ZDF'', ''ARD''], data_error = JUndefined\<rparr> \<and>
   answerSearchQuery sampleWorld = Inr ''Tatort'' \<and>
   footprints (snd (connectHandler sampleWorld defaultOptions)) = {AskingQuery, Searching}"
proof -
  let ?o1 = "defaultOptions\<lparr>channels := True, query := Some ''Tatort'', download := Some ''a1''\<rparr>"
  let ?o2 = "defaultOptions\<lparr>query := Some ''Tatort'', download := Some ''a1''\<rparr>"
  let ?o3 = "defaultOptions\<lparr>download := Some ''a1'', interactive := True\<rparr>"
  have h1: "channels ?o1" by simp
  have h2: "\<not> channels ?o2" "query ?o2 = Some ''Tatort''" "''Tatort'' \<noteq> []"
    by (simp_all add: sample_defs)
  have h3: "\<not> channels ?o3" "\<not> given (query ?o3)" "download ?o3 = Some ''a1''" "''a1'' \<noteq> []"
    by (simp_all add: sample_defs)
  have h4: "\<not> channels defaultOptions" "\<not> given (query defaultOptions)"
           "\<not> given (download defaultOptions)"
    by (simp_all add: sample_defs)
  note p = one_action[where w=sampleWorld and opts="?o1" and parse=parseEmpty and fs=plainFs
                       and args=noArgs, THEN conjunct2, THEN conjunct1]
  note a1 = one_action[where w=sampleWorld and opts="?o1", THEN conjunct2, THEN conjunct2,
                        THEN conjunct2, THEN conjunct1]
  note i1 = one_action[where w=sampleWorld and opts="?o1", THEN conjunct2, THEN conjunct2,
                        THEN conjunct2, THEN conjunct2, THEN conjunct1, THEN mp, OF h1]
  note a2 = one_action[where w=sampleWorld and opts="?o2", THEN conjunct2, THEN conjunct2,
                        THEN conjunct2, THEN conjunct1]
  note i2 = one_action[where w=sampleWorld and opts="?o2" and q="''Tatort''", THEN conjunct2,
                        THEN conjunct2, THEN conjunct2, THEN conjunct2, THEN conjunct2,
                        THEN conjunct1, THEN mp, OF conjI[OF h2(1) conjI[OF h2(2) h2(3)]]]
  note a3 = one_action[where w=sampleWorld and opts="?o3", THEN conjunct2, THEN conjunct2,
                        THEN conjunct2, THEN conjunct1]
  note i3 = one_action[where w=sampleWorld and opts="?o3" and i="''a1''", THEN conjunct2,
                        THEN conjunct2, THEN conjunct2, THEN conjunct2, THEN conjunct2,
                        THEN conjunct2, THEN conjunct1, THEN mp,
                        OF conjI[OF h3(1) conjI[OF h3(2) conjI[OF h3(3) h3(4)]]]]
  note a4 = one_action[where w=sampleWorld and opts=defaultOptions, THEN conjunct2,
                        THEN conjunct2, THEN conjunct2, THEN conjunct1]
  note i4 = one_action[where w=sampleWorld and opts=defaultOptions, THEN conjunct2,
                        THEN conjunct2, THEN conjunct2, THEN conjunct2, THEN conjunct2,
                        THEN conjunct2, THEN conjunct2, THEN conjunct1, THEN mp,
                        OF conjI[OF h4(1) conjI[OF h4(2) h4(3)]]]
  have h5: "fetchChannels sampleWorld (fetchesBefore defaultOptions) =
              Inr \<lparr>data_channels = Some [''ZDF'', ''ARD''], data_error = JUndefined\<rparr>"
           "answerSearchQuery sampleWorld = Inr ''Tatort''"
    by (simp_all add: sampleWorld_def)
  note i5 = one_action[where w=sampleWorld and opts=defaultOptions and sq="''Tatort''"
                        and d="\<lparr>data_channels = Some [''ZDF'', ''ARD''], data_error = JUndefined\<rparr>",
                        THEN conjunct2, THEN conjunct2, THEN conjunct2, THEN conjunct2,
                        THEN conjunct2, THEN conjunct2, THEN conjunct2, THEN conjunct2, THEN mp,
                        OF conjI[OF h4(1) conjI[OF h4(2) conjI[OF h4(3) conjI[OF h5(1) h5(2)]]]]]
  have r1: "fst (connectHandler sampleWorld ?o1) = ListChannels"
    by (rule trans[OF a1 i1[THEN conjunct1]])
  have f1: "footprints (snd (connectHandler sampleWorld ?o1)) = {Listing}"
    by (rule i1[THEN conjunct2, THEN conjunct2])
  have r2: "fst (connectHandler sampleWorld ?o2) = Search ''Tatort''"
    by (rule trans[OF a2 i2[THEN conjunct1]])
  have f2: "footprints (snd (connectHandler sampleWorld ?o2)) = {Searching}"
    by (rule i2[THEN conjunct2, THEN conjunct2, THEN conjunct2])
  have r3: "fst (connectHandler sampleWorld ?o3) = DownloadById ''a1''"
    by (rule trans[OF a3 i3[THEN conjunct1]])
  have f3: "footprints (snd (connectHandler sampleWorld ?o3)) = {LookingUp}"
    by (rule i3[THEN conjunct2, THEN conjunct2])
  have r4: "fst (connectHandler sampleWorld defaultOptions) = Interactive"
    by (rule trans[OF a4 i4[THEN conjunct1]])
  have f4: "snd (connectHandler sampleWorld defaultOptions) =
             handlerPrefix sampleWorld defaultOptions @
             startInteractiveMode sampleWorld (fetchesBefore defaultOptions)
               (resolvedOptions sampleWorld defaultOptions)"
    by (rule i4[THEN conjunct2, THEN conjunct1])
  show ?thesis
    by (intro conjI) (fact h1 r1 f1 h2 r2 f2 h3 r3 f3 h4 r4 f4 p h5 i5)+
qed

text \<open>
  The claim says that an action is executed on every invocation. With the server
  unreachable the socket never connects, the connect handler never runs, and the script
  does nothing after it has read its configuration: no action is executed.
\<close>

theorem one_action_counterexample:
  "program parseEmpty plainFs noArgs sampleWorld Silent = [] \<and>
   footprints (program parseEmpty plainFs noArgs sampleWorld Silent) = {}"
proof -
  have "loadConfig parseEmpty (homedir sampleWorld) plainFs = (emptyConfig, [])"
    by (simp add: loadConfig_def plainFs_def parseEmpty_def emptyConfig_def)
  then have "program parseEmpty plainFs noArgs sampleWorld Silent = []"
    by (simp add: program_def Let_def)
  then show ?thesis by simp
qed

section \<open>A channel list that cannot be fetched\<close>

lemma offline_fetch:
  "fetchChannels offlineWorld k = Inl (ExternalError ''connect ECONNREFUSED'')"
  by (simp add: offlineWorld_def)
















section \<open>Exit codes\<close>

text \<open>
  Claim C3 fails on the code. With \<^verbatim>\<open>--channels\<close> and the channel endpoint unreachable,
  ListChannels reports that it failed to load the channels and the process then exits
  with code 0. The handlers at the process boundary, and the lookup on an error payload,
  exit with code 1.
\<close>

theorem listChannels_failure_exits_zero:
  "snd (connectHandler offlineWorld (defaultOptions\<lparr>channels := True\<rparr>)) =
     [ConsoleLogValue ''Connected to server:'' (JStr ''https://mediathekviewweb.de''),
      SpinnerStart ''Loading channels...'',
      HttpGet ''https://mediathekviewweb.de/api/channels'',
      SpinnerFail ''Failed to load channels'',
      ConsoleErrorObject [] (ExternalError ''connect ECONNREFUSED''),
      ProcessExit 0] \<and>
   exitCode (snd (connectHandler offlineWorld (defaultOptions\<lparr>channels := True\<rparr>))) = Some 0"
proof -
  let ?o = "defaultOptions\<lparr>channels := True\<rparr>"
  have r: "resolveChannel offlineWorld ?o = (?o, [])"
    by (simp add: resolveChannel_def sample_defs)
  have a: "selectAction ?o = ListChannels" by (simp add: selectAction_def)
  have l: "listChannels offlineWorld 0 ?o =
     [SpinnerStart ''Loading channels...'',
      HttpGet ''https://mediathekviewweb.de/api/channels'',
      SpinnerFail ''Failed to load channels'',
      ConsoleErrorObject [] (ExternalError ''connect ECONNREFUSED''),
      ProcessExit 0]"
    by (simp add: listChannels_def offline_fetch default_server)
  have c: "opt_channel defaultOptions = JUndefined" by (simp add: sample_defs)
  have s: "snd (connectHandler offlineWorld ?o) =
     [ConsoleLogValue ''Connected to server:'' (JStr ''https://mediathekviewweb.de''),
      SpinnerStart ''Loading channels...'',
      HttpGet ''https://mediathekviewweb.de/api/channels'',
      SpinnerFail ''Failed to load channels'',
      ConsoleErrorObject [] (ExternalError ''connect ECONNREFUSED''),
      ProcessExit 0]"
    by (simp add: connectHandler_def Let_def r a l c default_server)
  show ?thesis by (simp add: s)
qed

lemma boundary_handlers_exit_one:
  "exitCode (socketError e) = Some 1"
  "exitCode (uncaughtException e) = Some 1"
  "exitCode (unhandledRejection reason) = Some 1"
  by (simp_all add: socketError_def uncaughtException_def unhandledRejection_def)

lemma lookup_error_payload_exits_one:
  "fetchEntries w ident = Inr data \<Longrightarrow> truthy (err data) \<Longrightarrow>
   exitCode (getAndDownloadVideo w opts ident) = Some 1"
  by (simp add: getAndDownloadVideo_def)

lemma lookup_without_result_exits_zero:
  "fetchEntries w ident = Inr data \<Longrightarrow> \<not> truthy (err data) \<Longrightarrow> result data = None \<Longrightarrow>
   exitCode (getAndDownloadVideo w opts ident) = Some 0"
  by (simp add: getAndDownloadVideo_def processFailed_def)

lemma listChannels_error_payload_exits_zero:
  "fetchChannels w k = Inr data \<Longrightarrow> truthy (data_error data) \<Longrightarrow>
   exitCode (listChannels w k opts) = Some 0"
  by (simp add: listChannels_def)

lemma interactive_no_results_exits_zero:
  "fetchChannels w k = Inr data \<Longrightarrow> answerSearchQuery w = Inr q \<Longrightarrow> exclude opts = None \<Longrightarrow>
   searchMovies w opts q (if truthy (opt_channel opts) then opt_channel opts else JNull)
     (orNull (limit opts)) None = (ev, Resolved []) \<Longrightarrow>
   startInteractiveMode w k opts =
     HttpGet (server opts @ ''/api/channels'') # Prompt ''searchQuery'' # ev @
     [ConsoleLog ''No results found.'', ProcessExit 0]"
  by (simp add: startInteractiveMode_def orNull_def)

lemma lookup_network_failure_exits_zero:
  "fetchEntries w ident = Inl e \<Longrightarrow> exitCode (getAndDownloadVideo w opts ident) = Some 0"
  by (simp add: getAndDownloadVideo_def processFailed_def)

end
